theory Spec2Isabelle
  imports Complex_Main "HOL-Library.Signed_Division"
begin

section \<open>Geometry: the parts of QPoint and QRect that the editor uses\<close>

text \<open>
  Coordinates are C++ \<open>int\<close>s of 32 bits. Where an overflow decides what the code does,
  in the computation of the resized rectangle (\<open>calculateNewRect\<close>), the arithmetic is
  that of the machine: the result wraps around (\<open>wrap32\<close>). Elsewhere the model uses
  unbounded integers and speaks about runs in which no coordinate overflows. Division of
  C++ integers truncates towards zero (\<open>sdiv\<close>).
\<close>

definition wrap32 :: "int \<Rightarrow> int" where
  "wrap32 x = (x + 2147483648) mod 4294967296 - 2147483648"

definition in32 :: "int \<Rightarrow> bool" where
  "in32 x \<longleftrightarrow> - 2147483648 \<le> x \<and> x \<le> 2147483647"

definition add32 :: "int \<Rightarrow> int \<Rightarrow> int" where
  "add32 a b = wrap32 (a + b)"

definition sub32 :: "int \<Rightarrow> int \<Rightarrow> int" where
  "sub32 a b = wrap32 (a - b)"

type_synonym QPoint = "int \<times> int"

definition padd :: "QPoint \<Rightarrow> QPoint \<Rightarrow> QPoint" where
  "padd p q = (fst p + fst q, snd p + snd q)"

definition psub :: "QPoint \<Rightarrow> QPoint \<Rightarrow> QPoint" where
  "psub p q = (fst p - fst q, snd p - snd q)"

definition padd32 :: "QPoint \<Rightarrow> QPoint \<Rightarrow> QPoint" where
  "padd32 p q = (add32 (fst p) (fst q), add32 (snd p) (snd q))"

definition psub32 :: "QPoint \<Rightarrow> QPoint \<Rightarrow> QPoint" where
  "psub32 p q = (sub32 (fst p) (fst q), sub32 (snd p) (snd q))"

definition pneg :: "QPoint \<Rightarrow> QPoint" where
  "pneg p = (- fst p, - snd p)"

definition manhattanLength :: "QPoint \<Rightarrow> int" where
  "manhattanLength p = \<bar>fst p\<bar> + \<bar>snd p\<bar>"

text \<open>A QRect stores its left, top, right and bottom coordinates, all inclusive.\<close>

record QRect =
  rx1 :: int
  ry1 :: int
  rx2 :: int
  ry2 :: int

definition QRect_null :: QRect where
  "QRect_null = \<lparr>rx1 = 0, ry1 = 0, rx2 = - 1, ry2 = - 1\<rparr>"

definition QRect_xywh :: "int \<Rightarrow> int \<Rightarrow> int \<Rightarrow> int \<Rightarrow> QRect" where
  "QRect_xywh x y w h = \<lparr>rx1 = x, ry1 = y, rx2 = x + w - 1, ry2 = y + h - 1\<rparr>"

definition width :: "QRect \<Rightarrow> int" where
  "width r = rx2 r - rx1 r + 1"

definition height :: "QRect \<Rightarrow> int" where
  "height r = ry2 r - ry1 r + 1"

text \<open>\<open>width()\<close> and \<open>height()\<close> as the machine computes them.\<close>

definition width32 :: "QRect \<Rightarrow> int" where
  "width32 r = add32 (sub32 (rx2 r) (rx1 r)) 1"

definition height32 :: "QRect \<Rightarrow> int" where
  "height32 r = add32 (sub32 (ry2 r) (ry1 r)) 1"


definition isEmpty :: "QRect \<Rightarrow> bool" where
  "isEmpty r \<longleftrightarrow> rx1 r > rx2 r \<or> ry1 r > ry2 r"

definition center :: "QRect \<Rightarrow> QPoint" where
  "center r = ((rx1 r + rx2 r) sdiv 2, (ry1 r + ry2 r) sdiv 2)"

definition topLeft :: "QRect \<Rightarrow> QPoint" where
  "topLeft r = (rx1 r, ry1 r)"

definition topRight :: "QRect \<Rightarrow> QPoint" where
  "topRight r = (rx2 r, ry1 r)"

definition bottomLeft :: "QRect \<Rightarrow> QPoint" where
  "bottomLeft r = (rx1 r, ry2 r)"

definition bottomRight :: "QRect \<Rightarrow> QPoint" where
  "bottomRight r = (rx2 r, ry2 r)"

definition setTopLeft :: "QPoint \<Rightarrow> QRect \<Rightarrow> QRect" where
  "setTopLeft p r = r\<lparr>rx1 := fst p, ry1 := snd p\<rparr>"

definition setTopRight :: "QPoint \<Rightarrow> QRect \<Rightarrow> QRect" where
  "setTopRight p r = r\<lparr>rx2 := fst p, ry1 := snd p\<rparr>"

definition setBottomLeft :: "QPoint \<Rightarrow> QRect \<Rightarrow> QRect" where
  "setBottomLeft p r = r\<lparr>rx1 := fst p, ry2 := snd p\<rparr>"

definition setBottomRight :: "QPoint \<Rightarrow> QRect \<Rightarrow> QRect" where
  "setBottomRight p r = r\<lparr>rx2 := fst p, ry2 := snd p\<rparr>"

definition translated :: "QPoint \<Rightarrow> QRect \<Rightarrow> QRect" where
  "translated d r = \<lparr>rx1 = rx1 r + fst d, ry1 = ry1 r + snd d,
                      rx2 = rx2 r + fst d, ry2 = ry2 r + snd d\<rparr>"

section \<open>The shape model\<close>

datatype ShapeKind = Rect | Ellipse | Arrow | Pentagon | Triangle | Diamond | RoundedRect

datatype QColor = QColor_invalid | QColor_rgba nat nat nat nat

text \<open>
  A shape is an object behind a \<open>unique_ptr<ShapeBase>\<close>; \<open>dynamic_cast<ShapeArrow *>\<close>
  succeeds exactly on the kind \<open>Arrow\<close>. An arrow has the two end points of its line, every
  other kind has a rectangle. The rotation is a C++ \<open>double\<close>; the model keeps it as a
  real number and never computes with it (see \<open>getHandles\<close>). \<open>needPlusHandles\<close> is
  the capability flag that says whether the shape offers connection handles.
\<close>

record Shape =
  kind :: ShapeKind
  m_rect :: QRect
  p1 :: QPoint
  p2 :: QPoint
  m_lineColor :: QColor
  m_lineWidth :: int
  m_selectedHandleIndex :: int
  m_rotation :: real
  needPlusHandles :: bool

datatype HandleType = Scale | Rotate | ArrowHandle | ArrowAnchor

record Handle =
  handle_rect :: QRect
  handle_type :: HandleType
  handle_direction :: int

definition setP1 :: "QPoint \<Rightarrow> Shape \<Rightarrow> Shape" where
  "setP1 p s = s\<lparr>p1 := p\<rparr>"

definition setP2 :: "QPoint \<Rightarrow> Shape \<Rightarrow> Shape" where
  "setP2 p s = s\<lparr>p2 := p\<rparr>"

definition isHandleSelected :: "Shape \<Rightarrow> bool" where
  "isHandleSelected s \<longleftrightarrow> m_selectedHandleIndex s \<noteq> - 1"


definition clearHandleSelection :: "Shape \<Rightarrow> Shape" where
  "clearHandleSelection s = s\<lparr>m_selectedHandleIndex := - 1\<rparr>"

definition getRect :: "Shape \<Rightarrow> QRect" where
  "getRect s = m_rect s"

definition setLineColor :: "QColor \<Rightarrow> Shape \<Rightarrow> Shape" where
  "setLineColor c s = s\<lparr>m_lineColor := c\<rparr>"

definition setLineWidth :: "int \<Rightarrow> Shape \<Rightarrow> Shape" where
  "setLineWidth w s = s\<lparr>m_lineWidth := w\<rparr>"

text \<open>
  Modelled from the spec: \<open>ShapeArrow::updateConnection\<close> is defined outside the given
  sources. The spec calls it "a delta-based nudge" of the bound end point: the start point
  when \<open>isStartPoint\<close> holds, the end point otherwise.
\<close>

definition updateConnection :: "bool \<Rightarrow> QPoint \<Rightarrow> Shape \<Rightarrow> Shape" where
  "updateConnection isStart delta s =
     (if isStart then s\<lparr>p1 := padd (p1 s) delta\<rparr> else s\<lparr>p2 := padd (p2 s) delta\<rparr>)"

text \<open>
  Modelled from the spec: the virtual \<open>moveBy\<close>, \<open>setRect\<close>, \<open>resize\<close> and
  \<open>boundingRect\<close> are defined in the shape classes, outside the given sources. By the
  spec's shape contract \<open>moveBy\<close> translates the geometry, \<open>setRect\<close> and \<open>resize\<close> of a
  shape that is not an arrow store the rectangle, and its \<open>boundingRect\<close> is that rectangle.
\<close>

definition moveBy :: "QPoint \<Rightarrow> Shape \<Rightarrow> Shape" where
  "moveBy delta s =
     (if kind s = Arrow then s\<lparr>p1 := padd (p1 s) delta, p2 := padd (p2 s) delta\<rparr>
      else s\<lparr>m_rect := translated delta (m_rect s)\<rparr>)"

definition setRect :: "QRect \<Rightarrow> Shape \<Rightarrow> Shape" where
  "setRect r s = s\<lparr>m_rect := r\<rparr>"

definition resize :: "QRect \<Rightarrow> Shape \<Rightarrow> Shape" where
  "resize r s = s\<lparr>m_rect := r\<rparr>"

definition boundingRect :: "Shape \<Rightarrow> QRect" where
  "boundingRect s = m_rect s"

section \<open>The canvas state\<close>

record ArrowConnection =
  arrowIndex :: int
  shapeIndex :: int
  handleIndex :: int
  isStartPoint :: bool

record SnapInfo =
  snap_shapeIndex :: int
  snap_handleIndex :: int
  snap_pos :: QPoint

definition SnapInfo_none :: SnapInfo where
  "SnapInfo_none = \<lparr>snap_shapeIndex = - 1, snap_handleIndex = - 1, snap_pos = (0, 0)\<rparr>"

datatype OperationType = Add | Remove | Move | Resize | Property

text \<open>
  \<open>action_shape\<close> is the \<open>unique_ptr\<close> of the action: \<open>None\<close> is the null pointer. A clone
  is a deep copy, which for a value is the value itself.
\<close>

record HistoryAction =
  action_type :: OperationType
  action_shapeIndex :: int
  action_shape :: "Shape option"
  action_connections :: "ArrowConnection list"
  action_moveDelta :: QPoint
  action_oldRect :: QRect
  action_newRect :: QRect
  action_oldLineColor :: QColor
  action_newLineColor :: QColor
  action_oldLineWidth :: int
  action_newLineWidth :: int

text \<open>The constructor \<open>HistoryAction(type, index)\<close>; the other members start out empty.\<close>

definition HistoryAction_init :: "OperationType \<Rightarrow> int \<Rightarrow> HistoryAction" where
  "HistoryAction_init t i =
     \<lparr>action_type = t, action_shapeIndex = i, action_shape = None, action_connections = [],
      action_moveDelta = (0, 0), action_oldRect = QRect_null, action_newRect = QRect_null,
      action_oldLineColor = QColor_invalid, action_newLineColor = QColor_invalid,
      action_oldLineWidth = 0, action_newLineWidth = 0\<rparr>"

text \<open>
  The two history stacks are lists with the top of the stack at the head. The member
  \<open>lastMousePos\<close> of the canvas is the field \<open>lastMousePos_m\<close>.
\<close>

record DrawingArea =
  shapes :: "Shape list"
  arrowConnections :: "ArrowConnection list"
  selectedIndex :: int
  snappedHandle :: SnapInfo
  m_undoStack :: "HistoryAction list"
  m_redoStack :: "HistoryAction list"
  m_ignoreHistoryActions :: bool
  m_bgColor :: QColor
  m_gridSize :: int
  m_pageSize :: "int \<times> int"
  dragging :: bool
  resizing :: bool
  m_moveStartPos :: QPoint
  originalRect :: QRect
  lastMousePos_m :: QPoint

text \<open>
  Reading a \<open>std::vector\<close> outside its bounds and moving an iterator before \<open>begin()\<close> are
  faults of the program; they are the one error value of the model.
\<close>

datatype fault = OutOfBounds

definition inRange :: "int \<Rightarrow> 'a list \<Rightarrow> bool" where
  "inRange i xs \<longleftrightarrow> 0 \<le> i \<and> i < int (length xs)"

definition erase_at :: "nat \<Rightarrow> 'a list \<Rightarrow> 'a list" where
  "erase_at n xs = take n xs @ drop (Suc n) xs"

definition insert_at :: "nat \<Rightarrow> 'a \<Rightarrow> 'a list \<Rightarrow> 'a list" where
  "insert_at n x xs = take n xs @ x # drop n xs"

section \<open>Keeping arrows glued to anchors: updateConnectedArrows\<close>

text \<open>
  \<open>getArrowAnchors\<close> is a virtual member of the shape classes, defined outside the given
  sources. Every function that calls it takes it as the parameter \<open>anchorsOf\<close>: the list
  of connection anchors of a shape, as computed from the shape's current geometry.
\<close>

text \<open>
  The first loop walks over the recorded connections. A connection to the moved shape whose
  \<open>arrowIndex\<close> is in range and names an arrow moves that arrow's end point: onto the
  anchor when \<open>handleIndex\<close> is in range for \<open>arrowAnchors\<close>, by \<open>delta\<close> otherwise.
\<close>

fun uca_pass1 ::
  "Handle list \<Rightarrow> int \<Rightarrow> QPoint \<Rightarrow> ArrowConnection list \<Rightarrow> Shape list \<Rightarrow> Shape list" where
  "uca_pass1 arrowAnchors sIdx delta [] shs = shs"
| "uca_pass1 arrowAnchors sIdx delta (conn # rest) shs =
     uca_pass1 arrowAnchors sIdx delta rest
       (if shapeIndex conn = sIdx \<and> inRange (arrowIndex conn) shs
           \<and> kind (shs ! nat (arrowIndex conn)) = Arrow
        then
          (let arrow = shs ! nat (arrowIndex conn) in
           if inRange (handleIndex conn) arrowAnchors then
             (let anchorPos = center (handle_rect (arrowAnchors ! nat (handleIndex conn))) in
              shs[nat (arrowIndex conn) :=
                    (if isStartPoint conn then setP1 anchorPos arrow else setP2 anchorPos arrow)])
           else shs[nat (arrowIndex conn) := updateConnection (isStartPoint conn) delta arrow])
        else shs)"

text \<open>
  The second loop visits every arrow \<open>i\<close> other than the moved shape. Its inner loop over the
  connections finds out which end points of arrow \<open>i\<close> are recorded as bound to the moved
  shape and moves them onto \<open>anchors[conn.handleIndex]\<close>; this read has no bounds check, so
  an index outside the anchor list is a fault.
\<close>

fun uca_scan ::
  "Handle list \<Rightarrow> nat \<Rightarrow> int \<Rightarrow> ArrowConnection list \<Rightarrow> bool \<times> bool \<times> Shape
     \<Rightarrow> fault + (bool \<times> bool \<times> Shape)" where
  "uca_scan anchors i sIdx [] acc = Inr acc"
| "uca_scan anchors i sIdx (conn # rest) (startPointConnected, endPointConnected, arrow) =
     (if arrowIndex conn = int i \<and> shapeIndex conn = sIdx then
        (if inRange (handleIndex conn) anchors then
           (let newAnchorPos = center (handle_rect (anchors ! nat (handleIndex conn))) in
            uca_scan anchors i sIdx rest
              (startPointConnected \<or> isStartPoint conn,
               endPointConnected \<or> \<not> isStartPoint conn,
               if isStartPoint conn then setP1 newAnchorPos arrow else setP2 newAnchorPos arrow))
         else Inl OutOfBounds)
      else uca_scan anchors i sIdx rest (startPointConnected, endPointConnected, arrow))"

text \<open>The loops over the anchors: the first anchor within 5 units (Manhattan) of the point.\<close>

fun uca_near :: "QPoint \<Rightarrow> Handle list \<Rightarrow> nat \<Rightarrow> (nat \<times> QPoint) option" where
  "uca_near p [] j = None"
| "uca_near p (a # rest) j =
     (let anchorPos = center (handle_rect a) in
      if manhattanLength (psub p anchorPos) \<le> 5 then Some (j, anchorPos)
      else uca_near p rest (Suc j))"

definition uca_arrow ::
  "(Shape \<Rightarrow> Handle list) \<Rightarrow> int \<Rightarrow> nat \<Rightarrow> Shape list \<times> ArrowConnection list
     \<Rightarrow> fault + (Shape list \<times> ArrowConnection list)" where
  "uca_arrow anchorsOf sIdx i st =
     (let shs = fst st; conns = snd st in
      if kind (shs ! i) \<noteq> Arrow \<or> int i = sIdx then Inr st
      else
        (let arrow = shs ! i;
             q1 = p1 arrow;
             q2 = p2 arrow;
             anchors = anchorsOf (shs ! nat sIdx)
         in case uca_scan anchors i sIdx conns (False, False, arrow) of
              Inl e \<Rightarrow> Inl e
            | Inr (startPointConnected, endPointConnected, arrow1) \<Rightarrow>
                (let (arrow2, conns2) =
                       (if \<not> startPointConnected then
                          (case uca_near q1 anchors 0 of
                             None \<Rightarrow> (arrow1, conns)
                           | Some (j, anchorPos) \<Rightarrow>
                               (setP1 anchorPos arrow1,
                                conns @ [\<lparr>arrowIndex = int i, shapeIndex = sIdx,
                                          handleIndex = int j, isStartPoint = True\<rparr>]))
                        else (arrow1, conns));
                     (arrow3, conns3) =
                       (if \<not> endPointConnected then
                          (case uca_near q2 anchors 0 of
                             None \<Rightarrow> (arrow2, conns2)
                           | Some (j, anchorPos) \<Rightarrow>
                               (setP2 anchorPos arrow2,
                                conns2 @ [\<lparr>arrowIndex = int i, shapeIndex = sIdx,
                                           handleIndex = int j, isStartPoint = False\<rparr>]))
                        else (arrow2, conns2))
                 in Inr (shs[i := arrow3], conns3))))"

fun uca_pass2 ::
  "(Shape \<Rightarrow> Handle list) \<Rightarrow> int \<Rightarrow> nat list \<Rightarrow> Shape list \<times> ArrowConnection list
     \<Rightarrow> fault + (Shape list \<times> ArrowConnection list)" where
  "uca_pass2 anchorsOf sIdx [] st = Inr st"
| "uca_pass2 anchorsOf sIdx (i # rest) st =
     (case uca_arrow anchorsOf sIdx i st of
        Inl e \<Rightarrow> Inl e
      | Inr st' \<Rightarrow> uca_pass2 anchorsOf sIdx rest st')"

definition updateConnectedArrows ::
  "(Shape \<Rightarrow> Handle list) \<Rightarrow> int \<Rightarrow> QPoint \<Rightarrow> DrawingArea \<Rightarrow> fault + DrawingArea" where
  "updateConnectedArrows anchorsOf sIdx delta d =
     (if sIdx < 0 \<or> sIdx \<ge> int (length (shapes d)) then Inr d
      else
        (let arrowAnchors = anchorsOf (shapes d ! nat sIdx);
             shs1 = uca_pass1 arrowAnchors sIdx delta (arrowConnections d) (shapes d)
         in case uca_pass2 anchorsOf sIdx [0 ..< length shs1] (shs1, arrowConnections d) of
              Inl e \<Rightarrow> Inl e
            | Inr (shs2, conns2) \<Rightarrow> Inr (d\<lparr>shapes := shs2, arrowConnections := conns2\<rparr>)))"

section \<open>The history engine\<close>

definition clearRedoStack :: "DrawingArea \<Rightarrow> DrawingArea" where
  "clearRedoStack d = d\<lparr>m_redoStack := []\<rparr>"

definition recordAddShape :: "int \<Rightarrow> DrawingArea \<Rightarrow> DrawingArea" where
  "recordAddShape index d =
     (if m_ignoreHistoryActions d then d
      else if index < 0 \<or> index \<ge> int (length (shapes d)) then d
      else
        (let action = (HistoryAction_init Add index)
                        \<lparr>action_shape := Some (shapes d ! nat index)\<rparr>
         in clearRedoStack (d\<lparr>m_undoStack := action # m_undoStack d\<rparr>)))"

definition recordRemoveShape :: "int \<Rightarrow> DrawingArea \<Rightarrow> DrawingArea" where
  "recordRemoveShape index d =
     (if m_ignoreHistoryActions d \<or> index < 0 \<or> index \<ge> int (length (shapes d)) then d
      else
        (let action = (HistoryAction_init Remove index)
                        \<lparr>action_shape := Some (shapes d ! nat index),
                         action_connections :=
                           filter (\<lambda>conn. shapeIndex conn = index) (arrowConnections d)\<rparr>
         in clearRedoStack (d\<lparr>m_undoStack := action # m_undoStack d\<rparr>)))"

definition recordMoveShape :: "int \<Rightarrow> QPoint \<Rightarrow> DrawingArea \<Rightarrow> DrawingArea" where
  "recordMoveShape index delta d =
     (if m_ignoreHistoryActions d \<or> index < 0 \<or> index \<ge> int (length (shapes d)) then d
      else
        (let action = (HistoryAction_init Move index)\<lparr>action_moveDelta := delta\<rparr>
         in clearRedoStack (d\<lparr>m_undoStack := action # m_undoStack d\<rparr>)))"

definition recordResizeShape :: "int \<Rightarrow> QRect \<Rightarrow> QRect \<Rightarrow> DrawingArea \<Rightarrow> DrawingArea" where
  "recordResizeShape index oldRect newRect d =
     (if m_ignoreHistoryActions d \<or> index < 0 \<or> index \<ge> int (length (shapes d)) then d
      else
        (let action = (HistoryAction_init Resize index)
                        \<lparr>action_oldRect := oldRect, action_newRect := newRect\<rparr>
         in clearRedoStack (d\<lparr>m_undoStack := action # m_undoStack d\<rparr>)))"

definition recordPropertyChange ::
  "int \<Rightarrow> QColor \<Rightarrow> QColor \<Rightarrow> int \<Rightarrow> int \<Rightarrow> DrawingArea \<Rightarrow> DrawingArea" where
  "recordPropertyChange index oldColor newColor oldWidth newWidth d =
     (if m_ignoreHistoryActions d \<or> index < 0 \<or> index \<ge> int (length (shapes d)) then d
      else
        (let action = (HistoryAction_init Property index)
                        \<lparr>action_oldLineColor := oldColor, action_newLineColor := newColor,
                         action_oldLineWidth := oldWidth, action_newLineWidth := newWidth\<rparr>
         in clearRedoStack (d\<lparr>m_undoStack := action # m_undoStack d\<rparr>)))"

text \<open>
  Erasing the shape at \<open>index\<close> and the adjustment of the selection that follows it, as
  undo of an Add and redo of a Remove both do.
\<close>

definition eraseShape :: "int \<Rightarrow> DrawingArea \<Rightarrow> DrawingArea" where
  "eraseShape index d =
     d\<lparr>shapes := erase_at (nat index) (shapes d),
       selectedIndex :=
         (if selectedIndex d = index then - 1
          else if selectedIndex d > index then selectedIndex d - 1
          else selectedIndex d)\<rparr>"

text \<open>
  Inserting a shape at \<open>std::min(index, (int)shapes.size())\<close>, as undo of a Remove and redo
  of an Add both do. An iterator before \<open>begin()\<close> is a fault.
\<close>

definition insertShape :: "int \<Rightarrow> Shape \<Rightarrow> DrawingArea \<Rightarrow> fault + DrawingArea" where
  "insertShape index sh d =
     (let insertIndex = min index (int (length (shapes d))) in
      if insertIndex < 0 then Inl OutOfBounds
      else Inr (d\<lparr>shapes := insert_at (nat insertIndex) sh (shapes d),
                  selectedIndex :=
                    (if selectedIndex d \<ge> insertIndex then selectedIndex d + 1
                     else selectedIndex d)\<rparr>))"

definition undo_action ::
  "(Shape \<Rightarrow> Handle list) \<Rightarrow> HistoryAction \<Rightarrow> DrawingArea \<Rightarrow> fault + DrawingArea" where
  "undo_action anchorsOf action d =
     (let idx = action_shapeIndex action in
      case action_type action of
        Add \<Rightarrow>
          (if inRange idx (shapes d) then
             (let redoAction = (HistoryAction_init Add idx)
                                 \<lparr>action_shape := Some (shapes d ! nat idx)\<rparr>
              in Inr (eraseShape idx (d\<lparr>m_redoStack := redoAction # m_redoStack d\<rparr>)))
           else Inr d)
      | Remove \<Rightarrow>
          (case action_shape action of
             None \<Rightarrow> Inr d
           | Some sh \<Rightarrow>
               (let redoAction = (HistoryAction_init Remove idx)
                                   \<lparr>action_shape := Some sh,
                                    action_connections := action_connections action\<rparr>
                in insertShape idx sh
                     (d\<lparr>m_redoStack := redoAction # m_redoStack d,
                        arrowConnections := arrowConnections d @ action_connections action\<rparr>)))
      | Move \<Rightarrow>
          (if inRange idx (shapes d) then
             (let redoAction = (HistoryAction_init Move idx)
                                 \<lparr>action_moveDelta := action_moveDelta action\<rparr>;
                  delta = pneg (action_moveDelta action)
              in updateConnectedArrows anchorsOf idx delta
                   (d\<lparr>m_redoStack := redoAction # m_redoStack d,
                      shapes := (shapes d)[nat idx := moveBy delta (shapes d ! nat idx)]\<rparr>))
           else Inr d)
      | Resize \<Rightarrow>
          (if inRange idx (shapes d) then
             Inr (d\<lparr>m_redoStack := action # m_redoStack d,
                    shapes := (shapes d)[nat idx :=
                                setRect (action_oldRect action) (shapes d ! nat idx)]\<rparr>)
           else Inr d)
      | Property \<Rightarrow>
          (if inRange idx (shapes d) then
             Inr (d\<lparr>m_redoStack := action # m_redoStack d,
                    shapes := (shapes d)[nat idx :=
                                setLineWidth (action_oldLineWidth action)
                                  (setLineColor (action_oldLineColor action)
                                     (shapes d ! nat idx))]\<rparr>)
           else Inr d))"

definition undo :: "(Shape \<Rightarrow> Handle list) \<Rightarrow> DrawingArea \<Rightarrow> fault + DrawingArea" where
  "undo anchorsOf d =
     (case m_undoStack d of
        [] \<Rightarrow> Inr d
      | action # rest \<Rightarrow>
          (case undo_action anchorsOf action
                  (d\<lparr>m_ignoreHistoryActions := True, m_undoStack := rest\<rparr>) of
             Inl e \<Rightarrow> Inl e
           | Inr d' \<Rightarrow> Inr (d'\<lparr>m_ignoreHistoryActions := False\<rparr>)))"

definition redo_action ::
  "(Shape \<Rightarrow> Handle list) \<Rightarrow> HistoryAction \<Rightarrow> DrawingArea \<Rightarrow> fault + DrawingArea" where
  "redo_action anchorsOf action d =
     (let idx = action_shapeIndex action in
      case action_type action of
        Add \<Rightarrow>
          (case action_shape action of
             None \<Rightarrow> Inr d
           | Some sh \<Rightarrow>
               (let undoAction = (HistoryAction_init Add idx)\<lparr>action_shape := Some sh\<rparr>
                in insertShape idx sh (d\<lparr>m_undoStack := undoAction # m_undoStack d\<rparr>)))
      | Remove \<Rightarrow>
          (if inRange idx (shapes d) then
             Inr (eraseShape idx (d\<lparr>m_undoStack := action # m_undoStack d\<rparr>))
           else Inr d)
      | Move \<Rightarrow>
          (if inRange idx (shapes d) then
             updateConnectedArrows anchorsOf idx (action_moveDelta action)
               (d\<lparr>m_undoStack := action # m_undoStack d,
                  shapes := (shapes d)[nat idx :=
                              moveBy (action_moveDelta action) (shapes d ! nat idx)]\<rparr>)
           else Inr d)
      | Resize \<Rightarrow>
          (if inRange idx (shapes d) then
             Inr (d\<lparr>m_undoStack := action # m_undoStack d,
                    shapes := (shapes d)[nat idx :=
                                setRect (action_newRect action) (shapes d ! nat idx)]\<rparr>)
           else Inr d)
      | Property \<Rightarrow>
          (if inRange idx (shapes d) then
             Inr (d\<lparr>m_undoStack := action # m_undoStack d,
                    shapes := (shapes d)[nat idx :=
                                setLineWidth (action_newLineWidth action)
                                  (setLineColor (action_newLineColor action)
                                     (shapes d ! nat idx))]\<rparr>)
           else Inr d))"

definition redo :: "(Shape \<Rightarrow> Handle list) \<Rightarrow> DrawingArea \<Rightarrow> fault + DrawingArea" where
  "redo anchorsOf d =
     (case m_redoStack d of
        [] \<Rightarrow> Inr d
      | action # rest \<Rightarrow>
          (case redo_action anchorsOf action
                  (d\<lparr>m_ignoreHistoryActions := True, m_redoStack := rest\<rparr>) of
             Inl e \<Rightarrow> Inl e
           | Inr d' \<Rightarrow> Inr (d'\<lparr>m_ignoreHistoryActions := False\<rparr>)))"

section \<open>Handles and resizing (ShapeBase)\<close>

text \<open>
  ShapeBase::getHandles. For a rotated shape every handle position is turned about the
  centre with \<open>cos\<close> and \<open>sin\<close> in floating point and cut back to integers. That
  computation is the parameter \<open>rotatePoint\<close> (angle, centre, point); the kinds, the
  direction codes and the order of the handles do not depend on it.
\<close>

definition handleAt :: "QPoint \<Rightarrow> int \<Rightarrow> HandleType \<Rightarrow> int \<Rightarrow> Handle" where
  "handleAt p half t dir =
     \<lparr>handle_rect = QRect_xywh (fst p - half) (snd p - half) (2 * half) (2 * half),
      handle_type = t, handle_direction = dir\<rparr>"

definition getHandles :: "(real \<Rightarrow> QPoint \<Rightarrow> QPoint \<Rightarrow> QPoint) \<Rightarrow> Shape \<Rightarrow> Handle list" where
  "getHandles rotatePoint s =
     (let rect = boundingRect s;
          w = width rect; h = height rect;
          x = rx1 rect; y = ry1 rect;
          c = center rect;
          rot = rotatePoint (m_rotation s) c;
          scaleHandles =
            (if m_rotation s \<noteq> 0 then
               [handleAt (rot (x, y)) 4 Scale 0,
                handleAt (rot (x + w sdiv 2, y)) 4 Scale 1,
                handleAt (rot (x + w, y)) 4 Scale 2,
                handleAt (rot (x, y + h sdiv 2)) 4 Scale 3,
                handleAt (rot (x + w, y + h sdiv 2)) 4 Scale 4,
                handleAt (rot (x, y + h)) 4 Scale 5,
                handleAt (rot (x + w sdiv 2, y + h)) 4 Scale 6,
                handleAt (rot (x + w, y + h)) 4 Scale 7]
             else
               [handleAt (x, y) 4 Scale 0,
                handleAt (x + w sdiv 2, y) 4 Scale 1,
                handleAt (x + w, y) 4 Scale 2,
                handleAt (x, y + h sdiv 2) 4 Scale 3,
                handleAt (x + w, y + h sdiv 2) 4 Scale 4,
                handleAt (x, y + h) 4 Scale 5,
                handleAt (x + w sdiv 2, y + h) 4 Scale 6,
                handleAt (x + w, y + h) 4 Scale 7]);
          rotateHandle =
            (if m_rotation s \<noteq> 0 then
               handleAt (rot (fst c, snd c - h sdiv 2 - 30)) 6 Rotate 8
             else handleAt (x + w sdiv 2, y - 30) 6 Rotate 8);
          plusHandles =
            (if needPlusHandles s then
               (if m_rotation s \<noteq> 0 then
                  [handleAt (rot (x + w sdiv 2, y - 30 + 12)) 12 ArrowHandle 9,
                   handleAt (rot (x + w sdiv 2, y + h + 30 - 12)) 12 ArrowHandle 10,
                   handleAt (rot (x - 30 + 12, y + h sdiv 2)) 12 ArrowHandle 11,
                   handleAt (rot (x + w + 30 - 12, y + h sdiv 2)) 12 ArrowHandle 12]
                else
                  [\<lparr>handle_rect = QRect_xywh (x + w sdiv 2 - 12) (y - 30) 24 24,
                    handle_type = ArrowHandle, handle_direction = 9\<rparr>,
                   \<lparr>handle_rect = QRect_xywh (x + w sdiv 2 - 12) (y + h + 30 - 24) 24 24,
                    handle_type = ArrowHandle, handle_direction = 10\<rparr>,
                   \<lparr>handle_rect = QRect_xywh (x - 30) (y + h sdiv 2 - 12) 24 24,
                    handle_type = ArrowHandle, handle_direction = 11\<rparr>,
                   \<lparr>handle_rect = QRect_xywh (x + w + 30 - 24) (y + h sdiv 2 - 12) 24 24,
                    handle_type = ArrowHandle, handle_direction = 12\<rparr>])
             else [])
      in scaleHandles @ [rotateHandle] @ plusHandles)"

text \<open>
  ShapeBase::calculateNewRect: the handle index selects the edges that follow the pointer;
  any other index gives the null rectangle; a result narrower or lower than 1 is replaced by
  the current rectangle. The differences, the sums and the width and height are those of
  32-bit integers.
\<close>

definition calculateNewRect :: "QPoint \<Rightarrow> QPoint \<Rightarrow> Shape \<Rightarrow> QRect" where
  "calculateNewRect mousePos lastMousePos s =
     (let currentRect = boundingRect s;
          delta = psub32 mousePos lastMousePos;
          i = m_selectedHandleIndex s;
          moved =
            (if i = 0 then Some (setTopLeft (padd32 (topLeft currentRect) delta) currentRect)
             else if i = 1 then Some (currentRect\<lparr>ry1 := add32 (ry1 currentRect) (snd delta)\<rparr>)
             else if i = 2 then
               Some (setTopRight (padd32 (topRight currentRect) delta) currentRect)
             else if i = 3 then Some (currentRect\<lparr>rx1 := add32 (rx1 currentRect) (fst delta)\<rparr>)
             else if i = 4 then Some (currentRect\<lparr>rx2 := add32 (rx2 currentRect) (fst delta)\<rparr>)
             else if i = 5 then
               Some (setBottomLeft (padd32 (bottomLeft currentRect) delta) currentRect)
             else if i = 6 then Some (currentRect\<lparr>ry2 := add32 (ry2 currentRect) (snd delta)\<rparr>)
             else if i = 7 then
               Some (setBottomRight (padd32 (bottomRight currentRect) delta) currentRect)
             else None)
      in case moved of
           None \<Rightarrow> QRect_null
         | Some newRect \<Rightarrow>
             if width32 newRect < 1 \<or> height32 newRect < 1 then currentRect else newRect)"

text \<open>
  ShapeBase::handleAnchorInteraction. Dragging the Rotate handle computes an angle with
  \<open>atan2\<close> in floating point; that branch is the parameter \<open>rotateDrag\<close>.
\<close>

definition handleAnchorInteraction ::
  "(real \<Rightarrow> QPoint \<Rightarrow> QPoint \<Rightarrow> QPoint) \<Rightarrow> (QPoint \<Rightarrow> QPoint \<Rightarrow> Shape \<Rightarrow> Shape)
     \<Rightarrow> QPoint \<Rightarrow> QPoint \<Rightarrow> Shape \<Rightarrow> bool \<times> Shape" where
  "handleAnchorInteraction rotatePoint rotateDrag mousePos lastMousePos s =
     (if m_selectedHandleIndex s = - 1 then (False, s)
      else
        (let handles = getHandles rotatePoint s in
         if \<not> inRange (m_selectedHandleIndex s) handles then (False, s)
         else if handle_type (handles ! nat (m_selectedHandleIndex s)) = Rotate then
           (True, rotateDrag mousePos lastMousePos s)
         else
           (let newRect = calculateNewRect mousePos lastMousePos s in
            if isEmpty newRect then (False, s) else (True, resize newRect s))))"

text \<open>
  What the spec says a drag of Scale handle \<open>code\<close> does: the codes are 0 = top left,
  1 = top middle, 2 = top right, 3 = middle left, 4 = middle right, 5 = bottom left,
  6 = bottom middle, 7 = bottom right, and only the edges the handle lies on follow the
  pointer.
\<close>

definition onLeft :: "int \<Rightarrow> bool" where
  "onLeft code \<longleftrightarrow> code = 0 \<or> code = 3 \<or> code = 5"

definition onRight :: "int \<Rightarrow> bool" where
  "onRight code \<longleftrightarrow> code = 2 \<or> code = 4 \<or> code = 7"

definition onTop :: "int \<Rightarrow> bool" where
  "onTop code \<longleftrightarrow> code = 0 \<or> code = 1 \<or> code = 2"

definition onBottom :: "int \<Rightarrow> bool" where
  "onBottom code \<longleftrightarrow> code = 5 \<or> code = 6 \<or> code = 7"

definition spec_dragged :: "int \<Rightarrow> QPoint \<Rightarrow> QRect \<Rightarrow> QRect" where
  "spec_dragged code delta r =
     \<lparr>rx1 = (if onLeft code then rx1 r + fst delta else rx1 r),
      ry1 = (if onTop code then ry1 r + snd delta else ry1 r),
      rx2 = (if onRight code then rx2 r + fst delta else rx2 r),
      ry2 = (if onBottom code then ry2 r + snd delta else ry2 r)\<rparr>"

text \<open>
  A drag step in which nothing overflows: the pointer's delta, the edges of the dragged
  rectangle, and the differences and sums from which its width and height are computed all
  are values of a 32-bit integer.
\<close>

definition dragRepresentable :: "int \<Rightarrow> QPoint \<Rightarrow> QPoint \<Rightarrow> QRect \<Rightarrow> bool" where
  "dragRepresentable code mousePos lastMousePos r =
     (let delta = psub mousePos lastMousePos;
          r' = spec_dragged code delta r
      in in32 (fst delta) \<and> in32 (snd delta) \<and>
         in32 (rx1 r') \<and> in32 (ry1 r') \<and> in32 (rx2 r') \<and> in32 (ry2 r') \<and>
         in32 (rx2 r' - rx1 r') \<and> in32 (rx2 r' - rx1 r' + 1) \<and>
         in32 (ry2 r' - ry1 r') \<and> in32 (ry2 r' - ry1 r' + 1))"

section \<open>Canvas operations\<close>

definition clear :: "DrawingArea \<Rightarrow> DrawingArea" where
  "clear d = d\<lparr>shapes := [], arrowConnections := [], selectedIndex := - 1,
                snappedHandle := SnapInfo_none, m_undoStack := [], m_redoStack := []\<rparr>"

definition setPageSize :: "int \<times> int \<Rightarrow> DrawingArea \<Rightarrow> DrawingArea" where
  "setPageSize sz d =
     (if sz \<noteq> m_pageSize d \<and> fst sz > 0 \<and> snd sz > 0 then d\<lparr>m_pageSize := sz\<rparr> else d)"

text \<open>
  The statements with which dropEvent, pasteShape and mousePressEvent put a new shape on
  the canvas: append it, select it, and record the addition at the selected index.
\<close>

definition addShape :: "Shape \<Rightarrow> DrawingArea \<Rightarrow> DrawingArea" where
  "addShape sh d =
     (let d1 = d\<lparr>shapes := shapes d @ [sh]\<rparr>;
          d2 = d1\<lparr>selectedIndex := int (length (shapes d1)) - 1\<rparr>
      in recordAddShape (selectedIndex d2) d2)"

text \<open>
  dropEvent. The factory functions of ShapeFactory are outside the given sources and are
  the parameters \<open>createShape\<close> (kind and rectangle) and \<open>createArrow\<close> (the two end points).
\<close>

definition dropEvent ::
  "(ShapeKind \<Rightarrow> QRect \<Rightarrow> Shape) \<Rightarrow> (QPoint \<times> QPoint \<Rightarrow> Shape)
     \<Rightarrow> bool \<Rightarrow> string \<Rightarrow> QPoint \<Rightarrow> DrawingArea \<Rightarrow> DrawingArea" where
  "dropEvent createShape createArrow hasFormat shapeType pos d =
     (if hasFormat then
        (let defaultRect = QRect_xywh (fst pos - 40) (snd pos - 30) 80 60;
             shape =
               (if shapeType = ''rect'' then Some (createShape Rect defaultRect)
                else if shapeType = ''ellipse'' then Some (createShape Ellipse defaultRect)
                else if shapeType = ''pentagon'' then Some (createShape Pentagon defaultRect)
                else if shapeType = ''triangle'' then Some (createShape Triangle defaultRect)
                else if shapeType = ''diamond'' then Some (createShape Diamond defaultRect)
                else if shapeType = ''arrow'' then
                  Some (createArrow ((fst pos - 40, snd pos), (fst pos + 40, snd pos)))
                else if shapeType = ''roundedrect'' then
                  Some (createShape RoundedRect defaultRect)
                else None)
         in case shape of None \<Rightarrow> d | Some sh \<Rightarrow> addShape sh d)
      else d)"

definition removeConnectionsOf :: "int \<Rightarrow> ArrowConnection list \<Rightarrow> ArrowConnection list" where
  "removeConnectionsOf index conns =
     filter (\<lambda>conn. \<not> (arrowIndex conn = index \<or> shapeIndex conn = index)) conns"

definition deleteSelectedShape :: "DrawingArea \<Rightarrow> DrawingArea" where
  "deleteSelectedShape d =
     (if selectedIndex d \<noteq> - 1 \<and> inRange (selectedIndex d) (shapes d) then
        (let d1 = recordRemoveShape (selectedIndex d) d;
             d2 = d1\<lparr>arrowConnections :=
                       removeConnectionsOf (selectedIndex d1) (arrowConnections d1)\<rparr>;
             d3 = d2\<lparr>shapes := erase_at (nat (selectedIndex d2)) (shapes d2)\<rparr>
         in d3\<lparr>selectedIndex := - 1\<rparr>)
      else d)"

definition setSelectedShapeLineColor :: "QColor \<Rightarrow> DrawingArea \<Rightarrow> DrawingArea" where
  "setSelectedShapeLineColor color d =
     (if selectedIndex d \<ge> 0 \<and> selectedIndex d < int (length (shapes d)) then
        (let sel = selectedIndex d;
             oldColor = m_lineColor (shapes d ! nat sel);
             oldWidth = m_lineWidth (shapes d ! nat sel)
         in if oldColor = color then d
            else
              (let d1 = recordPropertyChange sel oldColor color oldWidth oldWidth d
               in d1\<lparr>shapes := (shapes d1)[nat sel := setLineColor color (shapes d1 ! nat sel)]\<rparr>))
      else d)"

definition setSelectedShapeLineWidth :: "int \<Rightarrow> DrawingArea \<Rightarrow> DrawingArea" where
  "setSelectedShapeLineWidth w d =
     (if selectedIndex d \<ge> 0 \<and> selectedIndex d < int (length (shapes d)) then
        (let sel = selectedIndex d;
             oldColor = m_lineColor (shapes d ! nat sel);
             oldWidth = m_lineWidth (shapes d ! nat sel)
         in if oldWidth = w then d
            else
              (let d1 = recordPropertyChange sel oldColor oldColor oldWidth w d
               in d1\<lparr>shapes := (shapes d1)[nat sel := setLineWidth w (shapes d1 ! nat sel)]\<rparr>))
      else d)"

section \<open>Pressing the pointer\<close>

text \<open>
  mousePressEvent. Outside the given sources and therefore parameters: the virtual
  \<open>getHandles\<close> of the selected shape (\<open>handlesOf\<close>; for a shape that is not an arrow it is
  \<open>getHandles\<close> above), \<open>getArrowAnchors\<close> (\<open>anchorsOf\<close>), \<open>mapArrowHandleToAnchor\<close>
  (\<open>anchorIndexOf\<close>), the factory's \<open>createArrow\<close> and the hit test \<open>contains\<close> of a
  shape (\<open>containsPoint\<close>).
\<close>





section \<open>Releasing the pointer: commit of a dragged arrow end point\<close>

text \<open>
  The search of mouseReleaseEvent for an anchor to bind to. The inner loop runs over the
  anchors of one shape: it skips handles that are not ArrowAnchor and the anchor on which
  the arrow's other end point sits, and stops at the first anchor within \<open>snapDistance\<close>
  (Manhattan) of the pointer. The outer loop skips the selected shape and arrows.
  \<open>snapDistance\<close> is \<open>10 / m_zoomFactor\<close> cut to an integer, a floating-point division; it
  is a parameter.
\<close>

fun snapAnchorLoop ::
  "QPoint \<Rightarrow> QPoint \<Rightarrow> int \<Rightarrow> Handle list \<Rightarrow> nat \<Rightarrow> (nat \<times> QPoint) option" where
  "snapAnchorLoop docPos otherPoint snapDistance [] j = None"
| "snapAnchorLoop docPos otherPoint snapDistance (a # rest) j =
     (if handle_type a \<noteq> ArrowAnchor then
        snapAnchorLoop docPos otherPoint snapDistance rest (Suc j)
      else
        (let target = center (handle_rect a) in
         if target = otherPoint then snapAnchorLoop docPos otherPoint snapDistance rest (Suc j)
         else if manhattanLength (psub docPos target) \<le> snapDistance then Some (j, target)
         else snapAnchorLoop docPos otherPoint snapDistance rest (Suc j)))"

fun snapShapeLoop ::
  "(Shape \<Rightarrow> Handle list) \<Rightarrow> QPoint \<Rightarrow> QPoint \<Rightarrow> int \<Rightarrow> int \<Rightarrow> Shape list \<Rightarrow> nat
     \<Rightarrow> (nat \<times> nat \<times> QPoint) option" where
  "snapShapeLoop anchorsOf docPos otherPoint snapDistance sel [] i = None"
| "snapShapeLoop anchorsOf docPos otherPoint snapDistance sel (sh # rest) i =
     (if int i = sel \<or> kind sh = Arrow then
        snapShapeLoop anchorsOf docPos otherPoint snapDistance sel rest (Suc i)
      else
        (case snapAnchorLoop docPos otherPoint snapDistance (anchorsOf sh) 0 of
           Some (j, target) \<Rightarrow> Some (i, j, target)
         | None \<Rightarrow> snapShapeLoop anchorsOf docPos otherPoint snapDistance sel rest (Suc i)))"

text \<open>
  The commit for one end point of the selected arrow (\<open>isStart\<close>: its start point). The
  two branches of mouseReleaseEvent, for the end point (selected handle 1) and for the start
  point (selected handle 0), are this code with \<open>isStart\<close> false and true.
\<close>

definition commitOnRelease ::
  "(Shape \<Rightarrow> Handle list) \<Rightarrow> int \<Rightarrow> QPoint \<Rightarrow> bool \<Rightarrow> DrawingArea \<Rightarrow> fault + DrawingArea" where
  "commitOnRelease anchorsOf snapDistance docPos isStart d =
     (let sel = selectedIndex d;
          arrow = shapes d ! nat sel;
          otherPoint = (if isStart then p2 arrow else p1 arrow)
      in case snapShapeLoop anchorsOf docPos otherPoint snapDistance sel (shapes d) 0 of
           None \<Rightarrow> Inr d
         | Some (bestShapeIndex, bestHandleIndex, bestPoint) \<Rightarrow>
             (let arrow' = (if isStart then setP1 bestPoint arrow else setP2 bestPoint arrow);
                  kept = filter (\<lambda>conn. \<not> (arrowIndex conn = sel \<and> isStartPoint conn = isStart))
                           (arrowConnections d);
                  connection = \<lparr>arrowIndex = sel, shapeIndex = int bestShapeIndex,
                                handleIndex = int bestHandleIndex, isStartPoint = isStart\<rparr>
              in updateConnectedArrows anchorsOf (int bestShapeIndex) (0, 0)
                   (d\<lparr>shapes := (shapes d)[nat sel := arrow'],
                      arrowConnections := kept @ [connection]\<rparr>)))"

definition mouseReleaseEvent ::
  "(Shape \<Rightarrow> Handle list) \<Rightarrow> int \<Rightarrow> QPoint \<Rightarrow> DrawingArea \<Rightarrow> fault + DrawingArea" where
  "mouseReleaseEvent anchorsOf snapDistance docPos d =
     (let sel = selectedIndex d;
          finish = (\<lambda>d'. d'\<lparr>snappedHandle := SnapInfo_none, dragging := False\<rparr>)
      in if sel = - 1 then Inr (finish d)
         else if \<not> inRange sel (shapes d) then Inl OutOfBounds
         else if kind (shapes d ! nat sel) = Arrow then
           (case (if m_selectedHandleIndex (shapes d ! nat sel) = 1 then
                    commitOnRelease anchorsOf snapDistance docPos False d
                  else if m_selectedHandleIndex (shapes d ! nat sel) = 0 then
                    commitOnRelease anchorsOf snapDistance docPos True d
                  else Inr d) of
              Inl e \<Rightarrow> Inl e
            | Inr d1 \<Rightarrow>
                Inr (finish (d1\<lparr>shapes := (shapes d1)[nat sel :=
                                   clearHandleSelection (shapes d1 ! nat sel)]\<rparr>)))
         else
           (let sh = shapes d ! nat sel;
                d1 =
                  (if dragging d \<and> \<not> isHandleSelected sh then
                     (let totalDelta = psub docPos (m_moveStartPos d) in
                      if manhattanLength totalDelta > 0 then recordMoveShape sel totalDelta d
                      else d)
                   else if resizing d \<and> isHandleSelected sh then
                     (let newRect = getRect sh;
                          d0 = (if newRect \<noteq> originalRect d then
                                  recordResizeShape sel (originalRect d) newRect d
                                else d)
                      in d0\<lparr>resizing := False\<rparr>)
                   else d)
            in Inr (finish (d1\<lparr>shapes := (shapes d1)[nat sel :=
                                  clearHandleSelection (shapes d1 ! nat sel)]\<rparr>))))"

section \<open>Loading a document\<close>

text \<open>
  The JSON values Qt hands out. Numbers are the integers that \<open>toInt\<close> can return; a
  value of another kind reads as the default (0, the empty string, false, the empty array
  or object).
\<close>

datatype QJsonValue =
    JNull
  | JBool bool
  | JNumber int
  | JString string
  | JArray "QJsonValue list"
  | JObject "(string \<times> QJsonValue) list"

definition member :: "string \<Rightarrow> QJsonValue \<Rightarrow> QJsonValue" where
  "member key v =
     (case v of
        JObject kvs \<Rightarrow> (case map_of kvs key of None \<Rightarrow> JNull | Some x \<Rightarrow> x)
      | _ \<Rightarrow> JNull)"

definition toInt :: "QJsonValue \<Rightarrow> int" where
  "toInt v = (case v of JNumber n \<Rightarrow> n | _ \<Rightarrow> 0)"

definition toString :: "QJsonValue \<Rightarrow> string" where
  "toString v = (case v of JString t \<Rightarrow> t | _ \<Rightarrow> [])"

definition toBool :: "QJsonValue \<Rightarrow> bool" where
  "toBool v = (case v of JBool b \<Rightarrow> b | _ \<Rightarrow> False)"

definition toArray :: "QJsonValue \<Rightarrow> QJsonValue list" where
  "toArray v = (case v of JArray xs \<Rightarrow> xs | _ \<Rightarrow> [])"

definition toObject :: "QJsonValue \<Rightarrow> QJsonValue" where
  "toObject v = (case v of JObject kvs \<Rightarrow> JObject kvs | _ \<Rightarrow> JObject [])"

text \<open>
  What lies outside the given sources and is a parameter of loading: the JSON parser
  (\<open>None\<close> is the null document of a parse error), the colour a name stands for, the
  factory, and each shape's own \<open>fromJson\<close>.
\<close>

record Loader =
  parseJson :: "string \<Rightarrow> QJsonValue option"
  colorNamed :: "string \<Rightarrow> QColor"
  createShape :: "ShapeKind \<Rightarrow> QRect \<Rightarrow> Shape"
  createArrow :: "QPoint \<times> QPoint \<Rightarrow> Shape"
  shapeFromJson :: "QJsonValue \<Rightarrow> Shape \<Rightarrow> Shape"

definition loadShape :: "Loader \<Rightarrow> QJsonValue \<Rightarrow> Shape option" where
  "loadShape ld shapeVal =
     (let shapeObj = toObject shapeVal;
          ty = toString (member ''type'' shapeObj);
          shape =
            (if ty = ''rect'' then Some (createShape ld Rect QRect_null)
             else if ty = ''ellipse'' then Some (createShape ld Ellipse QRect_null)
             else if ty = ''arrow'' then Some (createArrow ld ((0, 0), (0, 0)))
             else if ty = ''pentagon'' then Some (createShape ld Pentagon QRect_null)
             else if ty = ''triangle'' then Some (createShape ld Triangle QRect_null)
             else if ty = ''diamond'' then Some (createShape ld Diamond QRect_null)
             else if ty = ''roundedrect'' then Some (createShape ld RoundedRect QRect_null)
             else None)
      in map_option (shapeFromJson ld shapeObj) shape)"

definition loadConnection :: "QJsonValue \<Rightarrow> ArrowConnection" where
  "loadConnection connVal =
     (let connObj = toObject connVal in
      \<lparr>arrowIndex = toInt (member ''arrowIndex'' connObj),
       shapeIndex = toInt (member ''shapeIndex'' connObj),
       handleIndex = toInt (member ''handleIndex'' connObj),
       isStartPoint = toBool (member ''isStartPoint'' connObj)\<rparr>)"

text \<open>
  loadFromFile. \<open>file\<close> is what opening and reading the file gives: \<open>None\<close> when it cannot
  be opened, its bytes otherwise. The result is the returned flag and the canvas.
\<close>

definition loadFromFile :: "Loader \<Rightarrow> string option \<Rightarrow> DrawingArea \<Rightarrow> bool \<times> DrawingArea" where
  "loadFromFile ld file d =
     (case file of
        None \<Rightarrow> (False, d)
      | Some data \<Rightarrow>
          (case parseJson ld data of
             None \<Rightarrow> (False, d)
           | Some doc \<Rightarrow>
               (let rootObj = toObject doc;
                    d1 = clear d;
                    d2 = d1\<lparr>m_bgColor := colorNamed ld (toString (member ''backgroundColor'' rootObj)),
                            m_gridSize := toInt (member ''gridSize'' rootObj)\<rparr>;
                    sizeObj = toObject (member ''size'' rootObj);
                    d3 = setPageSize (toInt (member ''width'' sizeObj),
                                      toInt (member ''height'' sizeObj)) d2;
                    d4 = d3\<lparr>shapes := shapes d3 @
                              List.map_filter (loadShape ld) (toArray (member ''shapes'' rootObj))\<rparr>;
                    d5 = d4\<lparr>arrowConnections := arrowConnections d4 @
                              map loadConnection (toArray (member ''connections'' rootObj))\<rparr>
                in (True, d5))))"

section \<open>Sequences of operations\<close>



text \<open>Adding the shapes of a list one after the other.\<close>

definition addShapes :: "Shape list \<Rightarrow> DrawingArea \<Rightarrow> DrawingArea" where
  "addShapes new d = foldl (\<lambda>d' sh. addShape sh d') d new"

text \<open>The Add action that carries a clone of \<open>sh\<close> for index \<open>i\<close>.\<close>

definition addAction :: "int \<Rightarrow> Shape \<Rightarrow> HistoryAction" where
  "addAction i sh = (HistoryAction_init Add i)\<lparr>action_shape := Some sh\<rparr>"

text \<open>The Add actions for the shapes \<open>xs\<close> at the indices \<open>n\<close>, \<open>n + 1\<close>, ...\<close>

definition addActions :: "nat \<Rightarrow> Shape list \<Rightarrow> HistoryAction list" where
  "addActions n xs = map (\<lambda>(k, sh). addAction (int k) sh) (enumerate n xs)"

section \<open>The connection invariant of the spec\<close>

text \<open>The arrow end point that each connection binds: the arrow and which of its two ends.\<close>

definition endpointsOf :: "ArrowConnection list \<Rightarrow> (int \<times> bool) list" where
  "endpointsOf conns = map (\<lambda>conn. (arrowIndex conn, isStartPoint conn)) conns"

text \<open>
  The invariant in the spec's words: an arrow end point has at most one connection, and no
  \<open>shapeIndex\<close> refers to an arrow.
\<close>

definition spec_connectionInvariant :: "DrawingArea \<Rightarrow> bool" where
  "spec_connectionInvariant d \<longleftrightarrow>
     distinct (endpointsOf (arrowConnections d)) \<and>
     (\<forall>conn\<in>set (arrowConnections d).
        inRange (shapeIndex conn) (shapes d) \<longrightarrow>
          kind (shapes d ! nat (shapeIndex conn)) \<noteq> Arrow)"

text \<open>
  What the connections that one call of updateConnectedArrows for shape \<open>s\<close> appends have
  in common: each binds to \<open>s\<close> an end point of another shape that had no connection to
  \<open>s\<close> among the connections \<open>conns\<close> before the call.
\<close>

definition addedBy :: "int \<Rightarrow> ArrowConnection list \<Rightarrow> ArrowConnection list \<Rightarrow> bool" where
  "addedBy s conns added \<longleftrightarrow>
     (\<forall>c\<in>set added. shapeIndex c = s \<and> arrowIndex c \<noteq> s \<and>
        \<not> (\<exists>c0\<in>set conns. arrowIndex c0 = arrowIndex c \<and> isStartPoint c0 = isStartPoint c \<and>
               shapeIndex c0 = s))"

text \<open>The connection that the second pass appends for an end point at \<open>p\<close>, if any.\<close>

definition nearConn ::
  "QPoint \<Rightarrow> Handle list \<Rightarrow> nat \<Rightarrow> int \<Rightarrow> bool \<Rightarrow> ArrowConnection list" where
  "nearConn p anchors i s isStart =
     (case uca_near p anchors 0 of
        None \<Rightarrow> []
      | Some (j, anchorPos) \<Rightarrow>
          [\<lparr>arrowIndex = int i, shapeIndex = s, handleIndex = int j, isStartPoint = isStart\<rparr>])"

section \<open>Example shapes and canvases\<close>

text \<open>
  Modelled from the spec: \<open>getArrowAnchors\<close> of an unrotated shape. The spec places the
  four anchors "exactly at the edge midpoint", in the order top, bottom, left, right of the
  connection handles, and an arrow is "never an anchor source". The midpoints are those of
  \<open>getHandles\<close>; each anchor is a rectangle centred on its midpoint.
\<close>

definition anchorAt :: "QPoint \<Rightarrow> Handle" where
  "anchorAt p = \<lparr>handle_rect = \<lparr>rx1 = fst p - 4, ry1 = snd p - 4, rx2 = fst p + 4, ry2 = snd p + 4\<rparr>,
                 handle_type = ArrowAnchor, handle_direction = 0\<rparr>"

definition edgeAnchors :: "Shape \<Rightarrow> Handle list" where
  "edgeAnchors s =
     (if kind s = Arrow then []
      else
        (let rect = boundingRect s;
             w = width rect; h = height rect;
             x = rx1 rect; y = ry1 rect
         in [anchorAt (x + w sdiv 2, y), anchorAt (x + w sdiv 2, y + h),
             anchorAt (x, y + h sdiv 2), anchorAt (x + w, y + h sdiv 2)]))"

definition black :: QColor where
  "black = QColor_rgba 0 0 0 255"

definition red :: QColor where
  "red = QColor_rgba 255 0 0 255"

definition rectShape :: "QRect \<Rightarrow> Shape" where
  "rectShape r =
     \<lparr>kind = Rect, m_rect = r, p1 = (0, 0), p2 = (0, 0), m_lineColor = black, m_lineWidth = 1,
      m_selectedHandleIndex = - 1, m_rotation = 0, needPlusHandles = True\<rparr>"

definition arrowShape :: "QPoint \<Rightarrow> QPoint \<Rightarrow> Shape" where
  "arrowShape a b =
     \<lparr>kind = Arrow, m_rect = QRect_null, p1 = a, p2 = b, m_lineColor = black, m_lineWidth = 1,
      m_selectedHandleIndex = - 1, m_rotation = 0, needPlusHandles = False\<rparr>"

definition canvasOf :: "Shape list \<Rightarrow> ArrowConnection list \<Rightarrow> int \<Rightarrow> DrawingArea" where
  "canvasOf shs conns sel =
     \<lparr>shapes = shs, arrowConnections = conns, selectedIndex = sel,
      snappedHandle = SnapInfo_none, m_undoStack = [], m_redoStack = [],
      m_ignoreHistoryActions = False, m_bgColor = QColor_rgba 255 255 255 255,
      m_gridSize = 20, m_pageSize = (800, 600), dragging = False, resizing = False,
      m_moveStartPos = (0, 0), originalRect = QRect_null, lastMousePos_m = (0, 0)\<rparr>"

definition exampleLoader :: Loader where
  "exampleLoader =
     \<lparr>parseJson = (\<lambda>data. if data = ''{}'' then Some (JObject []) else None),
      colorNamed = (\<lambda>name. QColor_invalid),
      createShape = (\<lambda>k r. (rectShape r)\<lparr>kind := k\<rparr>),
      createArrow = (\<lambda>l. arrowShape (fst l) (snd l)),
      shapeFromJson = (\<lambda>obj s. s)\<rparr>"

text \<open>
  Two rectangles three units apart and an arrow whose start point is bound to the right
  anchor (index 3) of the first one; the left anchor of the second rectangle is at (83, 30).
\<close>

definition nearbyShapesCanvas :: DrawingArea where
  "nearbyShapesCanvas =
     canvasOf [rectShape (QRect_xywh 0 0 80 60), rectShape (QRect_xywh 83 0 80 60),
               arrowShape (80, 30) (300, 30)]
       [\<lparr>arrowIndex = 2, shapeIndex = 0, handleIndex = 3, isStartPoint = True\<rparr>] 1"

text \<open>
  A rectangle and an arrow with a connection record whose \<open>handleIndex\<close> 4 is one past the
  four anchors of the rectangle, as a loaded document can contain it.
\<close>

definition staleHandleCanvas :: DrawingArea where
  "staleHandleCanvas =
     canvasOf [rectShape (QRect_xywh 0 0 80 60), arrowShape (20, 30) (300, 30)]
       [\<lparr>arrowIndex = 1, shapeIndex = 0, handleIndex = 4, isStartPoint = True\<rparr>] 0"

text \<open>A rectangle and a selected arrow whose start point is bound to the rectangle.\<close>

definition boundArrowCanvas :: DrawingArea where
  "boundArrowCanvas =
     canvasOf [rectShape (QRect_xywh 0 0 80 60), arrowShape (80, 30) (300, 30)]
       [\<lparr>arrowIndex = 1, shapeIndex = 0, handleIndex = 3, isStartPoint = True\<rparr>] 1"

text \<open>
  A canvas after four drops (rectangle, arrow, rectangle, arrow) and a press on the end
  handle of the last arrow: that arrow is selected, its handle 1 is selected, and a drag is
  under way.
\<close>

definition fourShapes :: "Shape list" where
  "fourShapes =
     [rectShape (QRect_xywh 0 0 80 60), arrowShape (0, 100) (50, 100),
      rectShape (QRect_xywh 200 0 80 60), arrowShape (100, 30) (150, 30)]"

definition pressedCanvas :: DrawingArea where
  "pressedCanvas =
     (addShapes fourShapes (canvasOf [] [] (- 1)))
       \<lparr>shapes := fourShapes[3 := (arrowShape (100, 30) (150, 30))\<lparr>m_selectedHandleIndex := 1\<rparr>],
        selectedIndex := 3, dragging := True\<rparr>"

text \<open>The canvas after the pointer is released on the left anchor of the second rectangle.\<close>

definition connectedCanvas :: DrawingArea where
  "connectedCanvas =
     pressedCanvas
       \<lparr>shapes := fourShapes[3 := arrowShape (100, 30) (200, 30)],
        arrowConnections :=
          [\<lparr>arrowIndex = 3, shapeIndex = 2, handleIndex = 2, isStartPoint = False\<rparr>],
        dragging := False\<rparr>"

text \<open>
  The canvas \<open>nearbyShapesCanvas\<close> after updateConnectedArrows for its second rectangle.
\<close>

definition reconciledCanvas :: DrawingArea where
  "reconciledCanvas =
     nearbyShapesCanvas
       \<lparr>shapes := [rectShape (QRect_xywh 0 0 80 60), rectShape (QRect_xywh 83 0 80 60),
                   arrowShape (83, 30) (300, 30)],
        arrowConnections :=
          [\<lparr>arrowIndex = 2, shapeIndex = 0, handleIndex = 3, isStartPoint = True\<rparr>,
           \<lparr>arrowIndex = 2, shapeIndex = 1, handleIndex = 2, isStartPoint = True\<rparr>]\<rparr>"

text \<open>
  A canvas with one rectangle whose undo stack holds an Add action for index 5, an index
  outside the shape list.
\<close>

definition staleIndexCanvas :: DrawingArea where
  "staleIndexCanvas =
     (canvasOf [rectShape (QRect_xywh 0 0 80 60)] [] 0)
       \<lparr>m_undoStack := [addAction 5 (rectShape (QRect_xywh 0 0 80 60))]\<rparr>"





text \<open>A rectangle whose right middle Scale handle (index 4) is selected.\<close>

definition rightHandleShape :: Shape where
  "rightHandleShape = (rectShape (QRect_xywh 0 0 80 60))\<lparr>m_selectedHandleIndex := 4\<rparr>"

section \<open>Unfolding the examples\<close>

lemmas example_defs =
  canvasOf_def rectShape_def arrowShape_def edgeAnchors_def anchorAt_def boundingRect_def
  QRect_xywh_def QRect_null_def width_def height_def center_def

lemmas uca_defs =
  updateConnectedArrows_def uca_arrow_def inRange_def setP1_def setP2_def updateConnection_def
  psub_def padd_def manhattanLength_def Let_def upt_rec

section \<open>Undo and redo on empty stacks\<close>

text \<open>
  Claim C9. Calling undo with an empty undo stack, or redo with an empty redo stack,
  returns at once: the whole canvas state (shape list, connection list, selection and both
  history stacks) is the state before the call, and no fault occurs.
\<close>

theorem undo_redo_empty_noop:
  "(m_undoStack d = [] \<longrightarrow> undo anchorsOf d = Inr d) \<and>
   (m_redoStack d = [] \<longrightarrow> redo anchorsOf d = Inr d)"
  by (simp add: undo_def redo_def)
theorem undo_redo_empty_noop_witness:
  "m_undoStack (canvasOf [] [] (- 1)) = [] \<and>
   undo edgeAnchors (canvasOf [] [] (- 1)) = Inr (canvasOf [] [] (- 1)) \<and>
   m_redoStack (canvasOf [] [] (- 1)) = [] \<and>
   redo edgeAnchors (canvasOf [] [] (- 1)) = Inr (canvasOf [] [] (- 1))"
  using undo_redo_empty_noop [of "canvasOf [] [] (- 1)" edgeAnchors]
  by (simp add: canvasOf_def)

section \<open>Loading\<close>

text \<open>
  Claim C5. When the file cannot be opened, or its content does not parse as JSON,
  loadFromFile returns false and the canvas (shapes, connections, selection, background
  colour, grid size, page size and both history stacks) is exactly the canvas before the
  call. The canvas is cleared only on the path on which the file was read and parsed: a
  call that returns true had a readable file with parseable content.
\<close>

theorem loadFromFile_failure_keeps_state:
  "(file = None \<or> (\<exists>data. file = Some data \<and> parseJson ld data = None)
      \<longrightarrow> loadFromFile ld file d = (False, d)) \<and>
   (fst (loadFromFile ld file d)
      \<longrightarrow> (\<exists>data doc. file = Some data \<and> parseJson ld data = Some doc))"
  by (auto simp: loadFromFile_def Let_def split: option.splits)

theorem loadFromFile_failure_keeps_state_witness:
  "loadFromFile exampleLoader None (canvasOf [rectShape (QRect_xywh 0 0 80 60)] [] 0)
     = (False, canvasOf [rectShape (QRect_xywh 0 0 80 60)] [] 0) \<and>
   parseJson exampleLoader ''{'' = None \<and>
   loadFromFile exampleLoader (Some ''{'') (canvasOf [rectShape (QRect_xywh 0 0 80 60)] [] 0)
     = (False, canvasOf [rectShape (QRect_xywh 0 0 80 60)] [] 0) \<and>
   fst (loadFromFile exampleLoader (Some ''{}'') (canvasOf [rectShape (QRect_xywh 0 0 80 60)] [] 0)) \<and>
   parseJson exampleLoader ''{}'' = Some (JObject [])"
  using loadFromFile_failure_keeps_state
          [of None exampleLoader "canvasOf [rectShape (QRect_xywh 0 0 80 60)] [] 0"]
        loadFromFile_failure_keeps_state
          [of "Some ''{''" exampleLoader "canvasOf [rectShape (QRect_xywh 0 0 80 60)] [] 0"]
        loadFromFile_failure_keeps_state
          [of "Some ''{}''" exampleLoader "canvasOf [rectShape (QRect_xywh 0 0 80 60)] [] 0"]
  by (simp add: exampleLoader_def loadFromFile_def Let_def)

lemma setPageSize_stacks:
  "m_undoStack (setPageSize sz d) = m_undoStack d \<and>
   m_redoStack (setPageSize sz d) = m_redoStack d"
  by (simp add: setPageSize_def)

text \<open>
  Claim C10. After every loadFromFile call that returns true, the undo stack and the redo
  stack are both empty: clear() empties them and nothing that follows in the load records
  a history action.
\<close>

theorem loadFromFile_success_clears_history:
  "fst (loadFromFile ld file d) \<Longrightarrow>
     m_undoStack (snd (loadFromFile ld file d)) = [] \<and>
     m_redoStack (snd (loadFromFile ld file d)) = []"
  by (auto simp: loadFromFile_def Let_def setPageSize_stacks clear_def split: option.splits)

theorem loadFromFile_success_clears_history_witness:
  "m_undoStack (addShape (rectShape (QRect_xywh 0 0 80 60)) (canvasOf [] [] (- 1))) \<noteq> [] \<and>
   fst (loadFromFile exampleLoader (Some ''{}'')
          (addShape (rectShape (QRect_xywh 0 0 80 60)) (canvasOf [] [] (- 1)))) \<and>
   m_undoStack (snd (loadFromFile exampleLoader (Some ''{}'')
          (addShape (rectShape (QRect_xywh 0 0 80 60)) (canvasOf [] [] (- 1))))) = [] \<and>
   m_redoStack (snd (loadFromFile exampleLoader (Some ''{}'')
          (addShape (rectShape (QRect_xywh 0 0 80 60)) (canvasOf [] [] (- 1))))) = []"
proof -
  let ?d = "addShape (rectShape (QRect_xywh 0 0 80 60)) (canvasOf [] [] (- 1))"
  have ok: "fst (loadFromFile exampleLoader (Some ''{}'') ?d)"
    by (simp add: loadFromFile_def exampleLoader_def Let_def)
  have ne: "m_undoStack ?d \<noteq> []"
    by (simp add: addShape_def recordAddShape_def clearRedoStack_def canvasOf_def Let_def)
  from ne ok loadFromFile_success_clears_history [OF ok] show ?thesis by simp
qed

section \<open>Line colour and line width of the selected shape\<close>

text \<open>
  Claim C8. With a shape selected, setSelectedShapeLineColor with the shape's current line
  colour and setSelectedShapeLineWidth with its current line width change nothing at all:
  the canvas after the call is the canvas before it (no history entry, both stacks and the
  shape as they were). With a different value exactly one Property action is pushed on the
  undo stack, carrying the old and the new (colour, width) pair.
\<close>

theorem line_property_setters:
  assumes sel: "inRange (selectedIndex d) (shapes d)"
    and rec: "\<not> m_ignoreHistoryActions d"
  shows "(color = m_lineColor (shapes d ! nat (selectedIndex d))
            \<longrightarrow> setSelectedShapeLineColor color d = d) \<and>
         (w = m_lineWidth (shapes d ! nat (selectedIndex d))
            \<longrightarrow> setSelectedShapeLineWidth w d = d) \<and>
         (color \<noteq> m_lineColor (shapes d ! nat (selectedIndex d))
            \<longrightarrow> m_undoStack (setSelectedShapeLineColor color d) =
                 (HistoryAction_init Property (selectedIndex d))
                   \<lparr>action_oldLineColor := m_lineColor (shapes d ! nat (selectedIndex d)),
                    action_newLineColor := color,
                    action_oldLineWidth := m_lineWidth (shapes d ! nat (selectedIndex d)),
                    action_newLineWidth := m_lineWidth (shapes d ! nat (selectedIndex d))\<rparr>
                 # m_undoStack d) \<and>
         (w \<noteq> m_lineWidth (shapes d ! nat (selectedIndex d))
            \<longrightarrow> m_undoStack (setSelectedShapeLineWidth w d) =
                 (HistoryAction_init Property (selectedIndex d))
                   \<lparr>action_oldLineColor := m_lineColor (shapes d ! nat (selectedIndex d)),
                    action_newLineColor := m_lineColor (shapes d ! nat (selectedIndex d)),
                    action_oldLineWidth := m_lineWidth (shapes d ! nat (selectedIndex d)),
                    action_newLineWidth := w\<rparr>
                 # m_undoStack d)"
  using sel rec
  by (simp add: setSelectedShapeLineColor_def setSelectedShapeLineWidth_def
      recordPropertyChange_def clearRedoStack_def inRange_def Let_def)

theorem line_property_setters_witness:
  "inRange (selectedIndex (canvasOf [rectShape (QRect_xywh 0 0 80 60)] [] 0))
     (shapes (canvasOf [rectShape (QRect_xywh 0 0 80 60)] [] 0)) \<and>
   \<not> m_ignoreHistoryActions (canvasOf [rectShape (QRect_xywh 0 0 80 60)] [] 0) \<and>
   setSelectedShapeLineColor black (canvasOf [rectShape (QRect_xywh 0 0 80 60)] [] 0)
     = canvasOf [rectShape (QRect_xywh 0 0 80 60)] [] 0 \<and>
   setSelectedShapeLineWidth 1 (canvasOf [rectShape (QRect_xywh 0 0 80 60)] [] 0)
     = canvasOf [rectShape (QRect_xywh 0 0 80 60)] [] 0 \<and>
   m_undoStack (setSelectedShapeLineColor red (canvasOf [rectShape (QRect_xywh 0 0 80 60)] [] 0))
     = [(HistoryAction_init Property 0)
          \<lparr>action_oldLineColor := black, action_newLineColor := red,
           action_oldLineWidth := 1, action_newLineWidth := 1\<rparr>] \<and>
   m_undoStack (setSelectedShapeLineWidth 3 (canvasOf [rectShape (QRect_xywh 0 0 80 60)] [] 0))
     = [(HistoryAction_init Property 0)
          \<lparr>action_oldLineColor := black, action_newLineColor := black,
           action_oldLineWidth := 1, action_newLineWidth := 3\<rparr>]"
proof -
  let ?d = "canvasOf [rectShape (QRect_xywh 0 0 80 60)] [] 0"
  have sel: "inRange (selectedIndex ?d) (shapes ?d)"
    by (simp add: canvasOf_def inRange_def)
  have rec: "\<not> m_ignoreHistoryActions ?d"
    by (simp add: canvasOf_def)
  from line_property_setters [OF sel rec, of black 1]
       line_property_setters [OF sel rec, of red 3] sel rec
  show ?thesis by (simp add: canvasOf_def rectShape_def red_def black_def)
qed

section \<open>Resizing with a Scale handle\<close>

lemma getHandles_types:
  "map handle_type (getHandles rotatePoint s) =
     replicate 8 Scale @ [Rotate] @ (if needPlusHandles s then replicate 4 ArrowHandle else [])"
  by (simp add: getHandles_def Let_def handleAt_def numeral_eq_Suc)

lemma scale_handle_index:
  assumes "inRange i (getHandles rotatePoint s)"
    and "handle_type (getHandles rotatePoint s ! nat i) = Scale"
  shows "0 \<le> i \<and> i < 8"
proof -
  let ?hs = "getHandles rotatePoint s"
  from assms(1) have n: "nat i < length ?hs" and nonneg: "0 \<le> i"
    by (auto simp: inRange_def)
  have "map handle_type ?hs ! nat i = Scale"
    using n assms(2) by simp
  then have t: "(replicate 8 Scale @ [Rotate] @
          (if needPlusHandles s then replicate 4 ArrowHandle else [])) ! nat i = Scale"
    by (simp only: getHandles_types)
  have len: "nat i < 9 + (if needPlusHandles s then 4 else 0)"
    using n arg_cong [OF getHandles_types [of rotatePoint s], of length] by (simp split: if_splits)
  have "nat i < 8"
  proof (rule ccontr)
    assume "\<not> nat i < 8"
    then have ge: "8 \<le> nat i" by simp
    show False
    proof (cases "nat i = 8")
      case True
      with t show False by (simp add: nth_append)
    next
      case False
      with ge have "9 \<le> nat i" by simp
      with t len show False
        by (auto simp: nth_append split: if_splits)
    qed
  qed
  with nonneg show ?thesis by simp
qed

lemma QRect_eq_iff:
  "(a :: QRect) = b \<longleftrightarrow> rx1 a = rx1 b \<and> ry1 a = ry1 b \<and> rx2 a = rx2 b \<and> ry2 a = ry2 b"
  by (cases a, cases b) simp

lemma wrap32_id: "in32 x \<Longrightarrow> wrap32 x = x"
  by (simp add: in32_def wrap32_def)

lemma calculateNewRect_scale:
  assumes "0 \<le> m_selectedHandleIndex s" and "m_selectedHandleIndex s < 8"
    and rep: "dragRepresentable (m_selectedHandleIndex s) mousePos lastMousePos (m_rect s)"
  shows "calculateNewRect mousePos lastMousePos s =
     (let r' = spec_dragged (m_selectedHandleIndex s) (psub mousePos lastMousePos) (m_rect s) in
      if width r' < 1 \<or> height r' < 1 then m_rect s else r')"
proof -
  let ?r = "spec_dragged (m_selectedHandleIndex s) (psub mousePos lastMousePos) (m_rect s)"
  from rep have d: "psub32 mousePos lastMousePos = psub mousePos lastMousePos"
    by (simp add: dragRepresentable_def Let_def psub32_def psub_def sub32_def wrap32_id)
  from rep have e: "in32 (rx1 ?r)" "in32 (ry1 ?r)" "in32 (rx2 ?r)" "in32 (ry2 ?r)"
    by (simp_all add: dragRepresentable_def Let_def)
  from rep have w: "width32 ?r = width ?r" "height32 ?r = height ?r"
    by (simp_all add: dragRepresentable_def Let_def width32_def height32_def width_def
        height_def add32_def sub32_def wrap32_id)
  from assms(1,2) consider "m_selectedHandleIndex s = 0" | "m_selectedHandleIndex s = 1"
    | "m_selectedHandleIndex s = 2" | "m_selectedHandleIndex s = 3"
    | "m_selectedHandleIndex s = 4" | "m_selectedHandleIndex s = 5"
    | "m_selectedHandleIndex s = 6" | "m_selectedHandleIndex s = 7"
    by linarith
  then have moved: "calculateNewRect mousePos lastMousePos s =
      (if width32 ?r < 1 \<or> height32 ?r < 1 then m_rect s else ?r)"
  proof cases
    case 1
    with e have "setTopLeft (padd32 (topLeft (m_rect s)) (psub mousePos lastMousePos)) (m_rect s) = ?r"
      by (simp add: spec_dragged_def onLeft_def onRight_def onTop_def onBottom_def
          setTopLeft_def topLeft_def padd32_def add32_def wrap32_id QRect_eq_iff)
    with 1 show ?thesis
      by (simp add: calculateNewRect_def boundingRect_def Let_def d)
  next
    case 2
    with e have "(m_rect s)\<lparr>ry1 := add32 (ry1 (m_rect s)) (snd (psub mousePos lastMousePos))\<rparr> = ?r"
      by (simp add: spec_dragged_def onLeft_def onRight_def onTop_def onBottom_def
          add32_def wrap32_id QRect_eq_iff)
    with 2 show ?thesis
      by (simp add: calculateNewRect_def boundingRect_def Let_def d)
  next
    case 3
    with e have "setTopRight (padd32 (topRight (m_rect s)) (psub mousePos lastMousePos)) (m_rect s) = ?r"
      by (simp add: spec_dragged_def onLeft_def onRight_def onTop_def onBottom_def
          setTopRight_def topRight_def padd32_def add32_def wrap32_id QRect_eq_iff)
    with 3 show ?thesis
      by (simp add: calculateNewRect_def boundingRect_def Let_def d)
  next
    case 4
    with e have "(m_rect s)\<lparr>rx1 := add32 (rx1 (m_rect s)) (fst (psub mousePos lastMousePos))\<rparr> = ?r"
      by (simp add: spec_dragged_def onLeft_def onRight_def onTop_def onBottom_def
          add32_def wrap32_id QRect_eq_iff)
    with 4 show ?thesis
      by (simp add: calculateNewRect_def boundingRect_def Let_def d)
  next
    case 5
    with e have "(m_rect s)\<lparr>rx2 := add32 (rx2 (m_rect s)) (fst (psub mousePos lastMousePos))\<rparr> = ?r"
      by (simp add: spec_dragged_def onLeft_def onRight_def onTop_def onBottom_def
          add32_def wrap32_id QRect_eq_iff)
    with 5 show ?thesis
      by (simp add: calculateNewRect_def boundingRect_def Let_def d)
  next
    case 6
    with e have "setBottomLeft (padd32 (bottomLeft (m_rect s)) (psub mousePos lastMousePos)) (m_rect s) = ?r"
      by (simp add: spec_dragged_def onLeft_def onRight_def onTop_def onBottom_def
          setBottomLeft_def bottomLeft_def padd32_def add32_def wrap32_id QRect_eq_iff)
    with 6 show ?thesis
      by (simp add: calculateNewRect_def boundingRect_def Let_def d)
  next
    case 7
    with e have "(m_rect s)\<lparr>ry2 := add32 (ry2 (m_rect s)) (snd (psub mousePos lastMousePos))\<rparr> = ?r"
      by (simp add: spec_dragged_def onLeft_def onRight_def onTop_def onBottom_def
          add32_def wrap32_id QRect_eq_iff)
    with 7 show ?thesis
      by (simp add: calculateNewRect_def boundingRect_def Let_def d)
  next
    case 8
    with e have "setBottomRight (padd32 (bottomRight (m_rect s)) (psub mousePos lastMousePos)) (m_rect s) = ?r"
      by (simp add: spec_dragged_def onLeft_def onRight_def onTop_def onBottom_def
          setBottomRight_def bottomRight_def padd32_def add32_def wrap32_id QRect_eq_iff)
    with 8 show ?thesis
      by (simp add: calculateNewRect_def boundingRect_def Let_def d)
  qed
  show ?thesis
    by (simp add: moved w Let_def)
qed

text \<open>
  Claim C7, as amended. For a shape that is not an arrow and whose selected handle is a
  Scale handle, and for a drag step in which no 32-bit integer overflows (the pointer's
  delta, the dragged edges and the width and height computed from them are representable),
  the step moves only the edges the handle lies on by the pointer's delta. When the
  rectangle so obtained would be narrower or lower than 1 the step is rejected: the shape,
  its rectangle included, stays as it was, and nothing fails. Otherwise the shape's
  rectangle becomes that rectangle and nothing else of the shape changes.
\<close>

theorem scale_drag_resizes_or_rejects:
  assumes "kind s \<noteq> Arrow"
    and "inRange (m_selectedHandleIndex s) (getHandles rotatePoint s)"
    and "handle_type (getHandles rotatePoint s ! nat (m_selectedHandleIndex s)) = Scale"
    and "dragRepresentable (m_selectedHandleIndex s) mousePos lastMousePos (m_rect s)"
  shows "snd (handleAnchorInteraction rotatePoint rotateDrag mousePos lastMousePos s) =
     (let r' = spec_dragged (m_selectedHandleIndex s) (psub mousePos lastMousePos) (m_rect s) in
      if width r' < 1 \<or> height r' < 1 then s else s\<lparr>m_rect := r'\<rparr>)"
proof -
  have rng: "0 \<le> m_selectedHandleIndex s \<and> m_selectedHandleIndex s < 8"
    using scale_handle_index [OF assms(2) assms(3)] .
  then have ne: "m_selectedHandleIndex s \<noteq> - 1" by simp
  let ?r = "spec_dragged (m_selectedHandleIndex s) (psub mousePos lastMousePos) (m_rect s)"
  note calc = calculateNewRect_scale [of s mousePos lastMousePos, OF _ _ assms(4)]
  show ?thesis
  proof (cases "width ?r < 1 \<or> height ?r < 1")
    case True
    then have c: "calculateNewRect mousePos lastMousePos s = m_rect s"
      using calc rng by (simp add: Let_def)
    show ?thesis
      using True ne assms(2) assms(3) c
      by (simp add: handleAnchorInteraction_def Let_def resize_def)
  next
    case False
    then have c: "calculateNewRect mousePos lastMousePos s = ?r"
      using calc rng by (simp add: Let_def)
    from False have "\<not> isEmpty ?r"
      by (simp add: isEmpty_def width_def height_def)
    then show ?thesis
      using False ne assms(2) assms(3) c
      by (simp add: handleAnchorInteraction_def Let_def resize_def)
  qed
qed

theorem scale_drag_resizes_or_rejects_witness:
  "kind ((rectShape (QRect_xywh 0 0 80 60))\<lparr>m_selectedHandleIndex := 7\<rparr>) \<noteq> Arrow \<and>
   inRange (m_selectedHandleIndex ((rectShape (QRect_xywh 0 0 80 60))\<lparr>m_selectedHandleIndex := 7\<rparr>))
     (getHandles (\<lambda>a c p. p) ((rectShape (QRect_xywh 0 0 80 60))\<lparr>m_selectedHandleIndex := 7\<rparr>)) \<and>
   handle_type (getHandles (\<lambda>a c p. p) ((rectShape (QRect_xywh 0 0 80 60))\<lparr>m_selectedHandleIndex := 7\<rparr>)
      ! nat (m_selectedHandleIndex ((rectShape (QRect_xywh 0 0 80 60))\<lparr>m_selectedHandleIndex := 7\<rparr>)))
     = Scale \<and>
   dragRepresentable 7 (- 100, 5) (0, 0) (QRect_xywh 0 0 80 60) \<and>
   dragRepresentable 7 (10, 5) (0, 0) (QRect_xywh 0 0 80 60) \<and>
   snd (handleAnchorInteraction (\<lambda>a c p. p) (\<lambda>m l s. s) (- 100, 5) (0, 0)
          ((rectShape (QRect_xywh 0 0 80 60))\<lparr>m_selectedHandleIndex := 7\<rparr>))
     = (rectShape (QRect_xywh 0 0 80 60))\<lparr>m_selectedHandleIndex := 7\<rparr> \<and>
   snd (handleAnchorInteraction (\<lambda>a c p. p) (\<lambda>m l s. s) (10, 5) (0, 0)
          ((rectShape (QRect_xywh 0 0 80 60))\<lparr>m_selectedHandleIndex := 7\<rparr>))
     = (rectShape (QRect_xywh 0 0 90 65))\<lparr>m_selectedHandleIndex := 7\<rparr>"
proof -
  let ?s = "(rectShape (QRect_xywh 0 0 80 60))\<lparr>m_selectedHandleIndex := 7\<rparr>"
  let ?rp = "(\<lambda>(a::real) (c::QPoint) (p::QPoint). p)"
  have k: "kind ?s \<noteq> Arrow"
    by (simp add: rectShape_def)
  have r: "inRange (m_selectedHandleIndex ?s) (getHandles ?rp ?s)"
    by (simp add: rectShape_def inRange_def getHandles_def Let_def)
  have t: "handle_type (getHandles ?rp ?s ! nat (m_selectedHandleIndex ?s)) = Scale"
    by (simp add: rectShape_def getHandles_def Let_def handleAt_def numeral_eq_Suc)
  have sel: "m_selectedHandleIndex ?s = 7" "m_rect ?s = QRect_xywh 0 0 80 60"
    by (simp_all add: rectShape_def)
  have o1: "dragRepresentable 7 (- 100, 5) (0, 0) (QRect_xywh 0 0 80 60)"
    and o2: "dragRepresentable 7 (10, 5) (0, 0) (QRect_xywh 0 0 80 60)"
    by (simp_all add: dragRepresentable_def spec_dragged_def psub_def in32_def onLeft_def
        onRight_def onTop_def onBottom_def QRect_xywh_def Let_def)
  from o1 have o1': "dragRepresentable (m_selectedHandleIndex ?s) (- 100, 5) (0, 0) (m_rect ?s)"
    by (simp only: sel)
  from o2 have o2': "dragRepresentable (m_selectedHandleIndex ?s) (10, 5) (0, 0) (m_rect ?s)"
    by (simp only: sel)
  from scale_drag_resizes_or_rejects [OF k r t o1', of "\<lambda>m l s. s"]
       scale_drag_resizes_or_rejects [OF k r t o2', of "\<lambda>m l s. s"]
  have "snd (handleAnchorInteraction ?rp (\<lambda>m l s. s) (- 100, 5) (0, 0) ?s) = ?s \<and>
        snd (handleAnchorInteraction ?rp (\<lambda>m l s. s) (10, 5) (0, 0) ?s)
          = (rectShape (QRect_xywh 0 0 90 65))\<lparr>m_selectedHandleIndex := 7\<rparr>"
    by (simp add: sel spec_dragged_def psub_def onLeft_def onRight_def onTop_def onBottom_def
        QRect_xywh_def width_def height_def Let_def rectShape_def)
  with k r t o1 o2 show ?thesis by simp
qed

text \<open>
  Claim C7 as stated fails on the code where the arithmetic overflows. With the right
  middle handle (index 4) of the rectangle (0, 0, 80, 60) selected and the pointer moved by
  2147483647 to the right, moving the right edge by the delta gives a rectangle 2147483727
  wide; the code computes the new right edge and the width in 32 bits, finds the width
  below 1 and leaves the shape as it was.
\<close>

theorem scale_drag_overflow_counterexample:
  "kind rightHandleShape \<noteq> Arrow \<and>
   handle_type (getHandles (\<lambda>a c p. p) rightHandleShape
                  ! nat (m_selectedHandleIndex rightHandleShape)) = Scale \<and>
   spec_dragged 4 (psub (2147483647, 0) (0, 0)) (m_rect rightHandleShape)
     = \<lparr>rx1 = 0, ry1 = 0, rx2 = 2147483726, ry2 = 59\<rparr> \<and>
   width \<lparr>rx1 = 0, ry1 = 0, rx2 = 2147483726, ry2 = 59\<rparr> = 2147483727 \<and>
   height \<lparr>rx1 = 0, ry1 = 0, rx2 = 2147483726, ry2 = 59\<rparr> = 60 \<and>
   handleAnchorInteraction (\<lambda>a c p. p) (\<lambda>m l s. s) (2147483647, 0) (0, 0) rightHandleShape
     = (True, rightHandleShape) \<and>
   rx2 (m_rect rightHandleShape) = 79"
proof -
  have 1: "kind rightHandleShape \<noteq> Arrow"
    by (simp add: rightHandleShape_def rectShape_def)
  have 2: "handle_type (getHandles (\<lambda>a c p. p) rightHandleShape
                  ! nat (m_selectedHandleIndex rightHandleShape)) = Scale"
    by (simp add: rightHandleShape_def rectShape_def getHandles_def Let_def handleAt_def
        numeral_eq_Suc)
  have 3: "spec_dragged 4 (psub (2147483647, 0) (0, 0)) (m_rect rightHandleShape)
     = \<lparr>rx1 = 0, ry1 = 0, rx2 = 2147483726, ry2 = 59\<rparr>"
    by (simp add: rightHandleShape_def rectShape_def spec_dragged_def psub_def onLeft_def
        onRight_def onTop_def onBottom_def QRect_xywh_def)
  have 4: "width \<lparr>rx1 = 0, ry1 = 0, rx2 = 2147483726, ry2 = 59\<rparr> = 2147483727"
    "height \<lparr>rx1 = 0, ry1 = 0, rx2 = 2147483726, ry2 = 59\<rparr> = 60"
    by (simp_all add: width_def height_def)
  have c: "calculateNewRect (2147483647, 0) (0, 0) rightHandleShape = m_rect rightHandleShape"
    by (simp add: calculateNewRect_def rightHandleShape_def rectShape_def boundingRect_def
        QRect_xywh_def psub32_def sub32_def add32_def wrap32_def width32_def height32_def
        Let_def)
  have e: "\<not> isEmpty (m_rect rightHandleShape)" "m_selectedHandleIndex rightHandleShape = 4"
    "rx2 (m_rect rightHandleShape) = 79"
    by (simp_all add: rightHandleShape_def rectShape_def QRect_xywh_def isEmpty_def)
  have r: "inRange 4 (getHandles (\<lambda>a c p. p) rightHandleShape)"
    by (simp add: rightHandleShape_def rectShape_def inRange_def getHandles_def Let_def)
  have 5: "handleAnchorInteraction (\<lambda>a c p. p) (\<lambda>m l s. s) (2147483647, 0) (0, 0)
             rightHandleShape = (True, rightHandleShape)"
    using 2 r e c by (simp add: handleAnchorInteraction_def Let_def resize_def)
  from 1 2 3 4 5 e(3) show ?thesis by simp
qed

section \<open>Adding, undoing and redoing\<close>




lemma length_addActions: "length (addActions n xs) = length xs"
  by (simp add: addActions_def)




lemma addAction_sel:
  "action_type (addAction i sh) = Add" "action_shapeIndex (addAction i sh) = i"
  "action_shape (addAction i sh) = Some sh"
  by (simp_all add: addAction_def HistoryAction_init_def)






section \<open>Connections\<close>

text \<open>
  Claim C4. The claim says that a Remove action stores every connection that touches the
  removed shape, as \<open>arrowIndex\<close> or as \<open>shapeIndex\<close>, and that undo restores them.
  recordRemoveShape stores only the connections whose \<open>shapeIndex\<close> is the removed index,
  while the deletion erases both kinds. Deleting the bound arrow below and undoing brings the
  arrow back without its connection.
\<close>

theorem removed_arrow_loses_connection:
  "arrowConnections boundArrowCanvas =
     [\<lparr>arrowIndex = 1, shapeIndex = 0, handleIndex = 3, isStartPoint = True\<rparr>] \<and>
   map action_connections (m_undoStack (deleteSelectedShape boundArrowCanvas)) = [[]] \<and>
   arrowConnections (deleteSelectedShape boundArrowCanvas) = [] \<and>
   (case undo edgeAnchors (deleteSelectedShape boundArrowCanvas) of
      Inl e \<Rightarrow> False
    | Inr d' \<Rightarrow> shapes d' = shapes boundArrowCanvas \<and> arrowConnections d' = [])"
  by (simp add: boundArrowCanvas_def deleteSelectedShape_def recordRemoveShape_def
      clearRedoStack_def removeConnectionsOf_def erase_at_def insert_at_def insertShape_def
      undo_def undo_action_def HistoryAction_init_def inRange_def Let_def canvasOf_def)

text \<open>
  Claim C6. The claim says that after updateConnectedArrows an end point bound with a valid
  \<open>handleIndex\<close> sits on the anchor's current centre and that an end point bound with an
  invalid \<open>handleIndex\<close> is moved by \<open>delta\<close>. The first pass does move such an end point
  by \<open>delta\<close>, but the second pass then reads the anchor list at the invalid index, so the
  call faults and never completes with the translated end point.
\<close>

theorem delta_fallback_then_fault:
  "map p1 (uca_pass1 (edgeAnchors (shapes staleHandleCanvas ! 0)) 0 (5, 7)
             (arrowConnections staleHandleCanvas) (shapes staleHandleCanvas))
     = [(0, 0), (25, 37)] \<and>
   updateConnectedArrows edgeAnchors 0 (5, 7) staleHandleCanvas = Inl OutOfBounds"
  by (simp add: staleHandleCanvas_def example_defs uca_defs)


subsection \<open>What a call of updateConnectedArrows appends\<close>

lemma uca_scan_result:
  assumes "uca_scan anchors i s conns (sc0, ec0, a0) = Inr (sc, ec, a1)"
  shows "(sc \<longleftrightarrow> sc0 \<or> (\<exists>c\<in>set conns. arrowIndex c = int i \<and> shapeIndex c = s \<and> isStartPoint c)) \<and>
         (ec \<longleftrightarrow> ec0 \<or> (\<exists>c\<in>set conns. arrowIndex c = int i \<and> shapeIndex c = s \<and> \<not> isStartPoint c)) \<and>
         kind a1 = kind a0"
  using assms
proof (induction conns arbitrary: sc0 ec0 a0)
  case Nil
  then show ?case by simp
next
  case (Cons c conns)
  show ?case
  proof (cases "arrowIndex c = int i \<and> shapeIndex c = s")
    case True
    with Cons.prems have rng: "inRange (handleIndex c) anchors"
      by (simp split: if_splits)
    let ?a = "if isStartPoint c
              then setP1 (center (handle_rect (anchors ! nat (handleIndex c)))) a0
              else setP2 (center (handle_rect (anchors ! nat (handleIndex c)))) a0"
    from Cons.prems True rng
    have "uca_scan anchors i s conns (sc0 \<or> isStartPoint c, ec0 \<or> \<not> isStartPoint c, ?a)
            = Inr (sc, ec, a1)"
      by (simp add: Let_def)
    from Cons.IH [OF this] True show ?thesis
      by (auto simp: setP1_def setP2_def)
  next
    case False
    with Cons.prems have "uca_scan anchors i s conns (sc0, ec0, a0) = Inr (sc, ec, a1)"
      by auto
    from Cons.IH [OF this] False show ?thesis by auto
  qed
qed

lemma map_kind_update:
  "kind x = kind (shs ! i) \<Longrightarrow> map kind (shs[i := x]) = map kind shs"
  by (cases "i < length shs") (simp_all add: map_update list_update_same_conv list_update_beyond)

lemma nearConn_facts:
  "c \<in> set (nearConn p anchors i s isStart) \<Longrightarrow>
     arrowIndex c = int i \<and> shapeIndex c = s \<and> isStartPoint c = isStart"
  "length (nearConn p anchors i s isStart) \<le> 1"
  by (auto simp: nearConn_def split: option.splits)

lemma uca_arrow_result:
  assumes "uca_arrow anchorsOf s i (shs, conns) = Inr (shs', conns')"
  shows "\<exists>added. conns' = conns @ added \<and> map kind shs' = map kind shs \<and>
           addedBy s conns added \<and> (\<forall>c\<in>set added. arrowIndex c = int i) \<and>
           distinct (map isStartPoint added)"
proof (cases "kind (shs ! i) \<noteq> Arrow \<or> int i = s")
  case True
  with assms have "shs' = shs" "conns' = conns"
    by (auto simp: uca_arrow_def)
  then show ?thesis by (simp add: addedBy_def)
next
  case False
  then have ne: "int i \<noteq> s" by simp
  let ?anchors = "anchorsOf (shs ! nat s)"
  from assms False obtain sc ec a1 where
    scan: "uca_scan ?anchors i s conns (False, False, shs ! i) = Inr (sc, ec, a1)"
    by (auto simp: uca_arrow_def Let_def split: sum.splits)
  from uca_scan_result [OF scan]
  have sc: "sc \<longleftrightarrow> (\<exists>c\<in>set conns. arrowIndex c = int i \<and> shapeIndex c = s \<and> isStartPoint c)"
    and ec: "ec \<longleftrightarrow> (\<exists>c\<in>set conns. arrowIndex c = int i \<and> shapeIndex c = s \<and> \<not> isStartPoint c)"
    and k1: "kind a1 = kind (shs ! i)"
    by auto
  define newS where "newS = (if sc then [] else nearConn (p1 (shs ! i)) ?anchors i s True)"
  define newE where "newE = (if ec then [] else nearConn (p2 (shs ! i)) ?anchors i s False)"
  from assms False scan
  have c': "conns' = conns @ newS @ newE"
    by (auto simp: uca_arrow_def Let_def newS_def newE_def nearConn_def
        split: option.splits prod.splits if_splits)
  from assms False scan k1
  have "\<exists>a3. shs' = shs[i := a3] \<and> kind a3 = kind (shs ! i)"
    by (auto simp: uca_arrow_def Let_def setP1_def setP2_def
        split: option.splits prod.splits if_splits)
  then have k: "map kind shs' = map kind shs"
    by (auto simp: map_kind_update)
  have fS: "\<forall>c\<in>set newS. \<not> sc \<and> arrowIndex c = int i \<and> shapeIndex c = s \<and> isStartPoint c"
    using nearConn_facts(1) by (auto simp: newS_def split: if_splits)
  have fE: "\<forall>c\<in>set newE. \<not> ec \<and> arrowIndex c = int i \<and> shapeIndex c = s \<and> \<not> isStartPoint c"
    using nearConn_facts(1) by (auto simp: newE_def split: if_splits)
  have lS: "length newS \<le> 1" and lE: "length newE \<le> 1"
    using nearConn_facts(2) by (auto simp: newS_def newE_def)
  have a: "addedBy s conns (newS @ newE)"
    unfolding addedBy_def using fS fE sc ec ne by auto
  have b: "\<forall>c\<in>set (newS @ newE). arrowIndex c = int i"
    using fS fE by auto
  have dS: "distinct (map isStartPoint newS)" using lS by (cases newS) auto
  have dE: "distinct (map isStartPoint newE)" using lE by (cases newE) auto
  have d: "distinct (map isStartPoint (newS @ newE))"
    using dS dE fS fE by auto
  from c' k a b d show ?thesis by blast
qed

lemma uca_pass2_result:
  assumes "uca_pass2 anchorsOf s idxs (shs, conns) = Inr (shs', conns')"
    and "distinct idxs"
  shows "\<exists>added. conns' = conns @ added \<and> map kind shs' = map kind shs \<and>
           addedBy s conns added \<and> (\<forall>c\<in>set added. arrowIndex c \<in> int ` set idxs) \<and>
           distinct (endpointsOf added)"
  using assms
proof (induction idxs arbitrary: shs conns)
  case Nil
  then show ?case by (simp add: addedBy_def endpointsOf_def)
next
  case (Cons i idxs)
  from Cons.prems(1) obtain shs1 conns1 where
    step: "uca_arrow anchorsOf s i (shs, conns) = Inr (shs1, conns1)"
    and rest: "uca_pass2 anchorsOf s idxs (shs1, conns1) = Inr (shs', conns')"
    by (auto split: sum.splits)
  from uca_arrow_result [OF step] obtain added1 where
    c1: "conns1 = conns @ added1" and k1: "map kind shs1 = map kind shs"
    and a1: "addedBy s conns added1" and i1: "\<forall>c\<in>set added1. arrowIndex c = int i"
    and d1: "distinct (map isStartPoint added1)"
    by blast
  from Cons.prems(2) have dist: "distinct idxs" and notin: "i \<notin> set idxs" by auto
  from Cons.IH [OF rest dist] obtain added2 where
    c2: "conns' = conns1 @ added2" and k2: "map kind shs' = map kind shs1"
    and a2: "addedBy s conns1 added2" and i2: "\<forall>c\<in>set added2. arrowIndex c \<in> int ` set idxs"
    and d2: "distinct (endpointsOf added2)"
    by blast
  have A: "conns' = conns @ (added1 @ added2)" using c1 c2 by simp
  have K: "map kind shs' = map kind shs" using k1 k2 by simp
  have B: "addedBy s conns (added1 @ added2)"
    using a1 a2 c1 by (auto simp: addedBy_def)
  have I: "\<forall>c\<in>set (added1 @ added2). arrowIndex c \<in> int ` set (i # idxs)"
    using i1 i2 by auto
  have e1: "distinct (endpointsOf added1)"
  proof -
    have "inj_on (\<lambda>c. (arrowIndex c, isStartPoint c)) (set added1)"
      using i1 d1 by (auto simp: inj_on_def distinct_map)
    moreover from d1 have "distinct added1" by (simp add: distinct_map)
    ultimately show ?thesis by (simp add: endpointsOf_def distinct_map)
  qed
  have disj: "set (endpointsOf added1) \<inter> set (endpointsOf added2) = {}"
    using i1 i2 notin by (auto simp: endpointsOf_def)
  have D: "distinct (endpointsOf (added1 @ added2))"
    using e1 d2 disj by (simp add: endpointsOf_def)
  from A K B I D show ?case by blast
qed

lemma uca_pass1_kind:
  "map kind (uca_pass1 anchors s delta conns shs) = map kind shs"
proof (induction conns arbitrary: shs)
  case Nil
  show ?case by simp
next
  case (Cons c conns)
  show ?case
    by (simp add: Cons.IH Let_def map_kind_update setP1_def setP2_def updateConnection_def)
qed

lemma updateConnectedArrows_result:
  assumes "updateConnectedArrows anchorsOf s delta d = Inr d'"
  shows "\<exists>added. arrowConnections d' = arrowConnections d @ added \<and>
           map kind (shapes d') = map kind (shapes d) \<and>
           addedBy s (arrowConnections d) added \<and> distinct (endpointsOf added)"
proof (cases "s < 0 \<or> s \<ge> int (length (shapes d))")
  case True
  with assms have "d' = d" by (simp add: updateConnectedArrows_def)
  then show ?thesis by (simp add: addedBy_def endpointsOf_def)
next
  case False
  let ?shs1 = "uca_pass1 (anchorsOf (shapes d ! nat s)) s delta (arrowConnections d) (shapes d)"
  from assms False obtain shs2 conns2 where
    p2: "uca_pass2 anchorsOf s [0 ..< length ?shs1] (?shs1, arrowConnections d) = Inr (shs2, conns2)"
    and d': "d' = d\<lparr>shapes := shs2, arrowConnections := conns2\<rparr>"
    by (auto simp: updateConnectedArrows_def Let_def split: sum.splits prod.splits)
  from uca_pass2_result [OF p2] obtain added where
    "conns2 = arrowConnections d @ added" "map kind shs2 = map kind ?shs1"
    "addedBy s (arrowConnections d) added" "distinct (endpointsOf added)"
    by auto
  then show ?thesis using d' by (auto simp: uca_pass1_kind)
qed

subsection \<open>The commit on release\<close>

lemma snapShapeLoop_found:
  "snapShapeLoop anchorsOf docPos other snapDistance sel shs i0 = Some (i, j, t) \<Longrightarrow>
     i0 \<le> i \<and> i < i0 + length shs \<and> kind (shs ! (i - i0)) \<noteq> Arrow \<and> int i \<noteq> sel"
proof (induction shs arbitrary: i0)
  case Nil
  then show ?case by simp
next
  case (Cons sh shs)
  show ?case
  proof (cases "int i0 = sel \<or> kind sh = Arrow")
    case True
    with Cons.prems
    have "snapShapeLoop anchorsOf docPos other snapDistance sel shs (Suc i0) = Some (i, j, t)"
      by auto
    from Cons.IH [OF this] show ?thesis
      by (auto simp: nth_Cons' Suc_diff_le)
  next
    case False
    show ?thesis
    proof (cases "snapAnchorLoop docPos other snapDistance (anchorsOf sh) 0")
      case None
      with Cons.prems False
      have "snapShapeLoop anchorsOf docPos other snapDistance sel shs (Suc i0) = Some (i, j, t)"
        by auto
      from Cons.IH [OF this] show ?thesis
        by (auto simp: nth_Cons' Suc_diff_le)
    next
      case (Some r)
      with Cons.prems False have "i = i0"
        by (auto split: prod.splits)
      with False show ?thesis by simp
    qed
  qed
qed

lemma commitOnRelease_result:
  assumes sel: "inRange (selectedIndex d) (shapes d)"
    and arrow: "kind (shapes d ! nat (selectedIndex d)) = Arrow"
    and found: "snapShapeLoop anchorsOf docPos
                  (if isStart then p2 (shapes d ! nat (selectedIndex d))
                   else p1 (shapes d ! nat (selectedIndex d)))
                  snapDistance (selectedIndex d) (shapes d) 0 = Some (bi, bj, bp)"
    and res: "commitOnRelease anchorsOf snapDistance docPos isStart d = Inr d'"
  shows "filter (\<lambda>c. arrowIndex c = selectedIndex d \<and> isStartPoint c = isStart)
           (arrowConnections d')
         = [\<lparr>arrowIndex = selectedIndex d, shapeIndex = int bi, handleIndex = int bj,
             isStartPoint = isStart\<rparr>] \<and>
         map kind (shapes d') = map kind (shapes d) \<and>
         bi < length (shapes d) \<and> kind (shapes d ! bi) \<noteq> Arrow"
proof -
  let ?sel = "selectedIndex d"
  let ?P = "\<lambda>c. arrowIndex c = ?sel \<and> isStartPoint c = isStart"
  let ?new = "\<lparr>arrowIndex = ?sel, shapeIndex = int bi, handleIndex = int bj,
               isStartPoint = isStart\<rparr>"
  let ?arrow = "shapes d ! nat ?sel"
  let ?arrow' = "if isStart then setP1 bp ?arrow else setP2 bp ?arrow"
  let ?kept = "filter (\<lambda>conn. \<not> ?P conn) (arrowConnections d)"
  let ?d1 = "d\<lparr>shapes := (shapes d)[nat ?sel := ?arrow'], arrowConnections := ?kept @ [?new]\<rparr>"
  from res found have upd: "updateConnectedArrows anchorsOf (int bi) (0, 0) ?d1 = Inr d'"
    by (simp add: commitOnRelease_def Let_def)
  from updateConnectedArrows_result [OF upd] obtain added where
    conns: "arrowConnections d' = ?kept @ [?new] @ added"
    and kinds: "map kind (shapes d') = map kind ((shapes d)[nat ?sel := ?arrow'])"
    and added: "addedBy (int bi) (?kept @ [?new]) added"
    by auto
  have "filter ?P added = []"
  proof (rule ccontr)
    assume "filter ?P added \<noteq> []"
    then obtain c where c: "c \<in> set added" "?P c"
      by (auto simp: filter_empty_conv)
    from added c(1)
    have "\<not> (\<exists>c0\<in>set (?kept @ [?new]). arrowIndex c0 = arrowIndex c \<and>
                isStartPoint c0 = isStartPoint c \<and> shapeIndex c0 = int bi)"
      by (simp add: addedBy_def)
    with c(2) show False by simp
  qed
  moreover have "filter ?P ?kept = []"
    by (auto simp: filter_empty_conv)
  ultimately have one: "filter ?P (arrowConnections d') = [?new]"
    by (simp add: conns)
  have "kind ?arrow' = kind ?arrow"
    by (simp add: setP1_def setP2_def)
  then have k: "map kind (shapes d') = map kind (shapes d)"
    using kinds by (simp add: map_kind_update)
  from snapShapeLoop_found [OF found]
  have "bi < length (shapes d)" "kind (shapes d ! bi) \<noteq> Arrow"
    by simp_all
  with one k show ?thesis by simp
qed

text \<open>
  Claim C1, as amended. When a pointer release commits a dragged end point of the selected
  arrow (an anchor to bind to is found) and the event completes, the connection list holds
  exactly one connection for that arrow and end point: the new one, and its \<open>shapeIndex\<close>
  is a shape that is not an arrow. Every connection that a call of updateConnectedArrows
  for shape \<open>s\<close> appends has \<open>shapeIndex\<close> \<open>s\<close>, belongs to another shape, and binds an
  end point that had no connection to shape \<open>s\<close> before the call; the appended connections
  bind pairwise different end points, and the call removes none.
\<close>

theorem commit_and_reconciliation_connections:
  "(inRange (selectedIndex d) (shapes d) \<and>
    kind (shapes d ! nat (selectedIndex d)) = Arrow \<and>
    m_selectedHandleIndex (shapes d ! nat (selectedIndex d)) = (if isStart then 0 else 1) \<and>
    snapShapeLoop anchorsOf docPos
      (if isStart then p2 (shapes d ! nat (selectedIndex d))
       else p1 (shapes d ! nat (selectedIndex d)))
      snapDistance (selectedIndex d) (shapes d) 0 = Some (bi, bj, bp) \<and>
    mouseReleaseEvent anchorsOf snapDistance docPos d = Inr d'
    \<longrightarrow>
      filter (\<lambda>c. arrowIndex c = selectedIndex d \<and> isStartPoint c = isStart)
        (arrowConnections d')
      = [\<lparr>arrowIndex = selectedIndex d, shapeIndex = int bi, handleIndex = int bj,
          isStartPoint = isStart\<rparr>] \<and>
      bi < length (shapes d') \<and> kind (shapes d' ! bi) \<noteq> Arrow) \<and>
   (updateConnectedArrows anchorsOf s delta d = Inr d''
    \<longrightarrow>
      (\<exists>added. arrowConnections d'' = arrowConnections d @ added \<and>
         addedBy s (arrowConnections d) added \<and> distinct (endpointsOf added)))"
  (is "(?A \<longrightarrow> ?B) \<and> (?C \<longrightarrow> ?D)")
proof (rule conjI)
  show "?A \<longrightarrow> ?B"
  proof (rule impI)
    assume a: ?A
    let ?sel = "selectedIndex d"
    from a have sel: "inRange ?sel (shapes d)" and arrow: "kind (shapes d ! nat ?sel) = Arrow"
      and h: "m_selectedHandleIndex (shapes d ! nat ?sel) = (if isStart then 0 else 1)"
      and rel: "mouseReleaseEvent anchorsOf snapDistance docPos d = Inr d'"
      by simp_all
    from a have found: "snapShapeLoop anchorsOf docPos
        (if isStart then p2 (shapes d ! nat ?sel) else p1 (shapes d ! nat ?sel))
        snapDistance ?sel (shapes d) 0 = Some (bi, bj, bp)"
      by simp
    from sel have ne: "?sel \<noteq> - 1" by (simp add: inRange_def)
    from rel sel arrow h ne obtain d1 where
      c: "commitOnRelease anchorsOf snapDistance docPos isStart d = Inr d1"
      and d': "d' = (d1\<lparr>shapes := (shapes d1)[nat ?sel :=
                            clearHandleSelection (shapes d1 ! nat ?sel)]\<rparr>)
                      \<lparr>snappedHandle := SnapInfo_none, dragging := False\<rparr>"
      by (cases isStart) (auto simp: mouseReleaseEvent_def Let_def split: sum.splits)
    from commitOnRelease_result [OF sel arrow found c]
    have one: "filter (\<lambda>c. arrowIndex c = ?sel \<and> isStartPoint c = isStart) (arrowConnections d1)
           = [\<lparr>arrowIndex = ?sel, shapeIndex = int bi, handleIndex = int bj,
               isStartPoint = isStart\<rparr>]"
      and k: "map kind (shapes d1) = map kind (shapes d)"
      and bi: "bi < length (shapes d)" "kind (shapes d ! bi) \<noteq> Arrow"
      by simp_all
    have "kind (clearHandleSelection (shapes d1 ! nat ?sel)) = kind (shapes d1 ! nat ?sel)"
      by (simp add: clearHandleSelection_def)
    then have k': "map kind (shapes d') = map kind (shapes d)"
      using k d' by (simp add: map_kind_update)
    then have len: "length (shapes d') = length (shapes d)"
      by (metis length_map)
    have "kind (shapes d' ! bi) = kind (shapes d ! bi)"
      using k' bi(1) len by (metis nth_map)
    with one bi len d' show ?B by simp
  qed
next
  show "?C \<longrightarrow> ?D"
  proof (rule impI)
    assume ?C
    from updateConnectedArrows_result [OF this] show ?D by blast
  qed
qed

lemma pressedCanvas_vals:
  "shapes pressedCanvas =
     fourShapes[3 := (arrowShape (100, 30) (150, 30))\<lparr>m_selectedHandleIndex := 1\<rparr>]"
  "selectedIndex pressedCanvas = 3" "arrowConnections pressedCanvas = []"
  by (simp_all add: pressedCanvas_def addShapes_def addShape_def recordAddShape_def
      clearRedoStack_def canvasOf_def Let_def fourShapes_def)

lemma pressedCanvas_search:
  "snapShapeLoop edgeAnchors (200, 30) (100, 30) 10 3 (shapes pressedCanvas) 0
     = Some (2, 2, (200, 30))"
  by (simp add: pressedCanvas_vals fourShapes_def example_defs psub_def manhattanLength_def
      Let_def)

lemma pressedCanvas_arrow:
  "shapes pressedCanvas ! 3 = (arrowShape (100, 30) (150, 30))\<lparr>m_selectedHandleIndex := 1\<rparr>"
  by (simp add: pressedCanvas_vals fourShapes_def)

lemma pressedCanvas_commit:
  "commitOnRelease edgeAnchors 10 (200, 30) False pressedCanvas
      = Inr (pressedCanvas
               \<lparr>shapes := fourShapes[3 := (arrowShape (100, 30) (200, 30))\<lparr>m_selectedHandleIndex := 1\<rparr>],
                arrowConnections :=
                  [\<lparr>arrowIndex = 3, shapeIndex = 2, handleIndex = 2, isStartPoint = False\<rparr>]\<rparr>)"
proof -
  have other: "p1 (shapes pressedCanvas ! 3) = (100, 30)"
    by (simp add: pressedCanvas_arrow arrowShape_def)
  have upd: "updateConnectedArrows edgeAnchors 2 (0, 0)
       (pressedCanvas
          \<lparr>shapes := (shapes pressedCanvas)[3 := setP2 (200, 30) (shapes pressedCanvas ! 3)],
           arrowConnections :=
             [\<lparr>arrowIndex = 3, shapeIndex = 2, handleIndex = 2, isStartPoint = False\<rparr>]\<rparr>)
     = Inr (pressedCanvas
               \<lparr>shapes := fourShapes[3 := (arrowShape (100, 30) (200, 30))\<lparr>m_selectedHandleIndex := 1\<rparr>],
                arrowConnections :=
                  [\<lparr>arrowIndex = 3, shapeIndex = 2, handleIndex = 2, isStartPoint = False\<rparr>]\<rparr>)"
    by (simp add: pressedCanvas_vals fourShapes_def rectShape_def arrowShape_def edgeAnchors_def
        anchorAt_def boundingRect_def QRect_xywh_def QRect_null_def width_def height_def
        center_def uca_defs)
  show ?thesis
    using pressedCanvas_search upd
    by (simp add: commitOnRelease_def pressedCanvas_vals(2,3) other Let_def)
qed

lemma pressedCanvas_snapped: "snappedHandle pressedCanvas = SnapInfo_none"
  by (simp add: pressedCanvas_def addShapes_def addShape_def recordAddShape_def
      clearRedoStack_def canvasOf_def Let_def fourShapes_def)

lemma pressedCanvas_release:
  "mouseReleaseEvent edgeAnchors 10 (200, 30) pressedCanvas = Inr connectedCanvas"
proof -
  have rng: "inRange 3 (shapes pressedCanvas)"
    by (simp add: pressedCanvas_vals fourShapes_def inRange_def)
  have k: "kind (shapes pressedCanvas ! 3) = Arrow"
    "m_selectedHandleIndex (shapes pressedCanvas ! 3) = 1"
    by (simp_all add: pressedCanvas_arrow arrowShape_def)
  have cleared: "clearHandleSelection ((arrowShape (100, 30) (200, 30))\<lparr>m_selectedHandleIndex := 1\<rparr>)
      = arrowShape (100, 30) (200, 30)"
    by (simp add: clearHandleSelection_def arrowShape_def)
  have "mouseReleaseEvent edgeAnchors 10 (200, 30) pressedCanvas
      = Inr (pressedCanvas
               \<lparr>shapes := fourShapes[3 := arrowShape (100, 30) (200, 30)],
                arrowConnections :=
                  [\<lparr>arrowIndex = 3, shapeIndex = 2, handleIndex = 2, isStartPoint = False\<rparr>],
                snappedHandle := SnapInfo_none, dragging := False\<rparr>)"
    using rng k
    by (simp add: mouseReleaseEvent_def pressedCanvas_vals(2) pressedCanvas_commit cleared
        fourShapes_def Let_def)
  also have "pressedCanvas
               \<lparr>shapes := fourShapes[3 := arrowShape (100, 30) (200, 30)],
                arrowConnections :=
                  [\<lparr>arrowIndex = 3, shapeIndex = 2, handleIndex = 2, isStartPoint = False\<rparr>],
                snappedHandle := SnapInfo_none, dragging := False\<rparr> = connectedCanvas"
    by (rule DrawingArea.equality) (simp_all add: connectedCanvas_def pressedCanvas_snapped)
  finally show ?thesis .
qed

theorem commit_and_reconciliation_connections_witness:
  "inRange (selectedIndex pressedCanvas) (shapes pressedCanvas) \<and>
   kind (shapes pressedCanvas ! nat (selectedIndex pressedCanvas)) = Arrow \<and>
   m_selectedHandleIndex (shapes pressedCanvas ! nat (selectedIndex pressedCanvas)) = 1 \<and>
   snapShapeLoop edgeAnchors (200, 30)
     (p1 (shapes pressedCanvas ! nat (selectedIndex pressedCanvas))) 10
     (selectedIndex pressedCanvas) (shapes pressedCanvas) 0 = Some (2, 2, (200, 30)) \<and>
   mouseReleaseEvent edgeAnchors 10 (200, 30) pressedCanvas = Inr connectedCanvas \<and>
   filter (\<lambda>c. arrowIndex c = 3 \<and> isStartPoint c = False) (arrowConnections connectedCanvas)
     = [\<lparr>arrowIndex = 3, shapeIndex = 2, handleIndex = 2, isStartPoint = False\<rparr>] \<and>
   2 < length (shapes connectedCanvas) \<and> kind (shapes connectedCanvas ! 2) \<noteq> Arrow \<and>
   updateConnectedArrows edgeAnchors 1 (0, 0) nearbyShapesCanvas = Inr reconciledCanvas \<and>
   (\<exists>added. arrowConnections reconciledCanvas = arrowConnections nearbyShapesCanvas @ added \<and>
      addedBy 1 (arrowConnections nearbyShapesCanvas) added \<and> distinct (endpointsOf added))"
proof -
  have A1: "inRange (selectedIndex pressedCanvas) (shapes pressedCanvas)"
    by (simp add: pressedCanvas_vals inRange_def fourShapes_def)
  have A2: "kind (shapes pressedCanvas ! nat (selectedIndex pressedCanvas)) = Arrow"
    and A3: "m_selectedHandleIndex (shapes pressedCanvas ! nat (selectedIndex pressedCanvas)) = 1"
    and P: "p1 (shapes pressedCanvas ! nat (selectedIndex pressedCanvas)) = (100, 30)"
    by (simp_all add: pressedCanvas_vals fourShapes_def arrowShape_def)
  have A4: "snapShapeLoop edgeAnchors (200, 30)
     (p1 (shapes pressedCanvas ! nat (selectedIndex pressedCanvas))) 10
     (selectedIndex pressedCanvas) (shapes pressedCanvas) 0 = Some (2, 2, (200, 30))"
  proof -
    have "p1 (shapes pressedCanvas ! 3) = (100, 30)"
      by (simp add: pressedCanvas_vals fourShapes_def arrowShape_def)
    with pressedCanvas_search show ?thesis
      by (simp add: pressedCanvas_vals(2))
  qed
  note A5 = pressedCanvas_release
  have U: "updateConnectedArrows edgeAnchors 1 (0, 0) nearbyShapesCanvas = Inr reconciledCanvas"
    by (simp add: reconciledCanvas_def nearbyShapesCanvas_def example_defs uca_defs)
  from commit_and_reconciliation_connections
         [where d = pressedCanvas and isStart = False and anchorsOf = edgeAnchors
            and docPos = "(200, 30)" and snapDistance = 10 and bi = 2 and bj = 2
            and bp = "(200, 30)" and d' = connectedCanvas, THEN conjunct1]
       A1 A2 A3 A4 A5
  have B: "filter (\<lambda>c. arrowIndex c = 3 \<and> isStartPoint c = False)
             (arrowConnections connectedCanvas)
           = [\<lparr>arrowIndex = 3, shapeIndex = 2, handleIndex = 2, isStartPoint = False\<rparr>] \<and>
         2 < length (shapes connectedCanvas) \<and> kind (shapes connectedCanvas ! 2) \<noteq> Arrow"
    by (simp add: pressedCanvas_vals(2))
  from commit_and_reconciliation_connections
         [where d = nearbyShapesCanvas and anchorsOf = edgeAnchors and s = 1
            and delta = "(0, 0)" and d'' = reconciledCanvas, THEN conjunct2] U
  have C: "\<exists>added. arrowConnections reconciledCanvas = arrowConnections nearbyShapesCanvas @ added \<and>
      addedBy 1 (arrowConnections nearbyShapesCanvas) added \<and> distinct (endpointsOf added)"
    by simp
  from A1 A2 A3 A4 A5 B U C show ?thesis by simp
qed


lemma recordRemoveShape_frame:
  "shapes (recordRemoveShape i d) = shapes d"
  "arrowConnections (recordRemoveShape i d) = arrowConnections d"
  "selectedIndex (recordRemoveShape i d) = selectedIndex d"
  by (simp_all add: recordRemoveShape_def clearRedoStack_def Let_def)

lemma deleteSelectedShape_result:
  assumes "inRange (selectedIndex d) (shapes d)"
  shows "shapes (deleteSelectedShape d) = erase_at (nat (selectedIndex d)) (shapes d)"
    and "arrowConnections (deleteSelectedShape d)
           = removeConnectionsOf (selectedIndex d) (arrowConnections d)"
  using assms
  by (auto simp: deleteSelectedShape_def recordRemoveShape_frame Let_def inRange_def)

lemma connectedCanvas_vals:
  "shapes connectedCanvas = fourShapes[3 := arrowShape (100, 30) (200, 30)]"
  "arrowConnections connectedCanvas
     = [\<lparr>arrowIndex = 3, shapeIndex = 2, handleIndex = 2, isStartPoint = False\<rparr>]"
  by (simp_all add: connectedCanvas_def)

text \<open>
  Claim C1 as stated fails on the code. After four drops and one commit on release the
  invariant of the spec holds; deleting the first rectangle then shifts the shapes down
  without re-indexing the connection, whose \<open>shapeIndex\<close> 2 now names an arrow. And on a
  canvas on which the invariant holds, the second pass of updateConnectedArrows appends a
  second connection for an end point that is bound to a different shape.
\<close>

theorem connection_invariant_counterexample:
  "mouseReleaseEvent edgeAnchors 10 (200, 30) pressedCanvas = Inr connectedCanvas \<and>
   spec_connectionInvariant connectedCanvas \<and>
   \<not> spec_connectionInvariant (deleteSelectedShape (connectedCanvas\<lparr>selectedIndex := 0\<rparr>)) \<and>
   spec_connectionInvariant nearbyShapesCanvas \<and>
   updateConnectedArrows edgeAnchors 1 (0, 0) nearbyShapesCanvas = Inr reconciledCanvas \<and>
   \<not> spec_connectionInvariant reconciledCanvas"
proof -
  have 1: "spec_connectionInvariant connectedCanvas"
    by (simp add: spec_connectionInvariant_def connectedCanvas_vals endpointsOf_def
        fourShapes_def rectShape_def inRange_def)
  let ?c = "connectedCanvas\<lparr>selectedIndex := 0\<rparr>"
  have r: "inRange (selectedIndex ?c) (shapes ?c)"
    by (simp add: connectedCanvas_vals fourShapes_def inRange_def)
  have 2: "\<not> spec_connectionInvariant (deleteSelectedShape ?c)"
    unfolding spec_connectionInvariant_def deleteSelectedShape_result [OF r]
    by (simp add: connectedCanvas_vals removeConnectionsOf_def erase_at_def
        endpointsOf_def fourShapes_def arrowShape_def inRange_def)
  have 3: "spec_connectionInvariant nearbyShapesCanvas"
    by (simp add: spec_connectionInvariant_def nearbyShapesCanvas_def endpointsOf_def
        canvasOf_def rectShape_def inRange_def)
  have 4: "updateConnectedArrows edgeAnchors 1 (0, 0) nearbyShapesCanvas = Inr reconciledCanvas"
    by (simp add: reconciledCanvas_def nearbyShapesCanvas_def example_defs uca_defs)
  have 5: "\<not> spec_connectionInvariant reconciledCanvas"
    by (simp add: spec_connectionInvariant_def reconciledCanvas_def endpointsOf_def)
  from pressedCanvas_release 1 2 3 4 5 show ?thesis by simp
qed

section \<open>Stale indices\<close>

lemma undo_stale:
  assumes "m_undoStack d = a # rest"
    and "action_type a = Add \<or> action_type a = Move \<or> action_type a = Resize \<or>
         action_type a = Property"
    and "\<not> inRange (action_shapeIndex a) (shapes d)"
    and "\<not> m_ignoreHistoryActions d"
  shows "undo anchorsOf d = Inr (d\<lparr>m_undoStack := rest\<rparr>)"
proof -
  have "undo_action anchorsOf a (d\<lparr>m_ignoreHistoryActions := True, m_undoStack := rest\<rparr>)
          = Inr (d\<lparr>m_ignoreHistoryActions := True, m_undoStack := rest\<rparr>)"
    using assms(2,3) by (auto simp: undo_action_def Let_def)
  moreover have "(d\<lparr>m_ignoreHistoryActions := True, m_undoStack := rest\<rparr>)
                   \<lparr>m_ignoreHistoryActions := False\<rparr> = d\<lparr>m_undoStack := rest\<rparr>"
    using assms(4) by (intro DrawingArea.equality) simp_all
  ultimately show ?thesis using assms(1) by (simp add: undo_def)
qed

lemma redo_stale:
  assumes "m_redoStack d = a # rest"
    and "action_type a = Remove \<or> action_type a = Move \<or> action_type a = Resize \<or>
         action_type a = Property"
    and "\<not> inRange (action_shapeIndex a) (shapes d)"
    and "\<not> m_ignoreHistoryActions d"
  shows "redo anchorsOf d = Inr (d\<lparr>m_redoStack := rest\<rparr>)"
proof -
  have "redo_action anchorsOf a (d\<lparr>m_ignoreHistoryActions := True, m_redoStack := rest\<rparr>)
          = Inr (d\<lparr>m_ignoreHistoryActions := True, m_redoStack := rest\<rparr>)"
    using assms(2,3) by (auto simp: redo_action_def Let_def)
  moreover have "(d\<lparr>m_ignoreHistoryActions := True, m_redoStack := rest\<rparr>)
                   \<lparr>m_ignoreHistoryActions := False\<rparr> = d\<lparr>m_redoStack := rest\<rparr>"
    using assms(4) by (intro DrawingArea.equality) simp_all
  ultimately show ?thesis using assms(1) by (simp add: redo_def)
qed

text \<open>
  Claim C2, as amended. An undo of an Add, Move, Resize or Property action and a redo of a
  Remove, Move, Resize or Property action whose recorded index is outside the shape list do
  not fault and change nothing but the stack the action is taken from. updateConnectedArrows
  with a shape index outside the shape list changes nothing. In its first pass every index
  is checked before it is used: a connection whose \<open>arrowIndex\<close> is outside the shape list
  is skipped, and for a connection to the moved shape whose \<open>handleIndex\<close> is outside the
  anchor list the end point of the arrow is moved by \<open>delta\<close>.
\<close>

theorem stale_index_operations:
  "(\<not> inRange sIdx (shapes d) \<longrightarrow> updateConnectedArrows anchorsOf sIdx delta d = Inr d) \<and>
   (m_undoStack d = a # rest \<and>
    (action_type a = Add \<or> action_type a = Move \<or> action_type a = Resize \<or>
     action_type a = Property) \<and>
    \<not> inRange (action_shapeIndex a) (shapes d) \<and> \<not> m_ignoreHistoryActions d
    \<longrightarrow> undo anchorsOf d = Inr (d\<lparr>m_undoStack := rest\<rparr>)) \<and>
   (m_redoStack d = a # rest \<and>
    (action_type a = Remove \<or> action_type a = Move \<or> action_type a = Resize \<or>
     action_type a = Property) \<and>
    \<not> inRange (action_shapeIndex a) (shapes d) \<and> \<not> m_ignoreHistoryActions d
    \<longrightarrow> redo anchorsOf d = Inr (d\<lparr>m_redoStack := rest\<rparr>)) \<and>
   (\<not> inRange (arrowIndex conn) shs
    \<longrightarrow> uca_pass1 anchors sIdx delta (conn # conns) shs = uca_pass1 anchors sIdx delta conns shs) \<and>
   (shapeIndex conn = sIdx \<and> inRange (arrowIndex conn) shs \<and>
    kind (shs ! nat (arrowIndex conn)) = Arrow \<and> \<not> inRange (handleIndex conn) anchors
    \<longrightarrow> uca_pass1 anchors sIdx delta (conn # conns) shs =
         uca_pass1 anchors sIdx delta conns
           (shs[nat (arrowIndex conn) :=
                  updateConnection (isStartPoint conn) delta (shs ! nat (arrowIndex conn))]))"
proof (intro conjI impI)
  assume "\<not> inRange sIdx (shapes d)"
  then show "updateConnectedArrows anchorsOf sIdx delta d = Inr d"
    by (auto simp: updateConnectedArrows_def inRange_def)
next
  assume "m_undoStack d = a # rest \<and>
    (action_type a = Add \<or> action_type a = Move \<or> action_type a = Resize \<or>
     action_type a = Property) \<and>
    \<not> inRange (action_shapeIndex a) (shapes d) \<and> \<not> m_ignoreHistoryActions d"
  then show "undo anchorsOf d = Inr (d\<lparr>m_undoStack := rest\<rparr>)"
    using undo_stale [of d a rest anchorsOf] by blast
next
  assume "m_redoStack d = a # rest \<and>
    (action_type a = Remove \<or> action_type a = Move \<or> action_type a = Resize \<or>
     action_type a = Property) \<and>
    \<not> inRange (action_shapeIndex a) (shapes d) \<and> \<not> m_ignoreHistoryActions d"
  then show "redo anchorsOf d = Inr (d\<lparr>m_redoStack := rest\<rparr>)"
    using redo_stale [of d a rest anchorsOf] by blast
next
  assume "\<not> inRange (arrowIndex conn) shs"
  then show "uca_pass1 anchors sIdx delta (conn # conns) shs = uca_pass1 anchors sIdx delta conns shs"
    by simp
next
  assume "shapeIndex conn = sIdx \<and> inRange (arrowIndex conn) shs \<and>
    kind (shs ! nat (arrowIndex conn)) = Arrow \<and> \<not> inRange (handleIndex conn) anchors"
  then show "uca_pass1 anchors sIdx delta (conn # conns) shs =
         uca_pass1 anchors sIdx delta conns
           (shs[nat (arrowIndex conn) :=
                  updateConnection (isStartPoint conn) delta (shs ! nat (arrowIndex conn))])"
    by (simp add: Let_def)
qed

theorem stale_index_operations_witness:
  "\<not> inRange 7 (shapes (canvasOf [rectShape (QRect_xywh 0 0 80 60)] [] 0)) \<and>
   updateConnectedArrows edgeAnchors 7 (1, 1) (canvasOf [rectShape (QRect_xywh 0 0 80 60)] [] 0)
     = Inr (canvasOf [rectShape (QRect_xywh 0 0 80 60)] [] 0) \<and>
   m_undoStack staleIndexCanvas = [addAction 5 (rectShape (QRect_xywh 0 0 80 60))] \<and>
   \<not> inRange 5 (shapes staleIndexCanvas) \<and> \<not> m_ignoreHistoryActions staleIndexCanvas \<and>
   undo edgeAnchors staleIndexCanvas = Inr (staleIndexCanvas\<lparr>m_undoStack := []\<rparr>) \<and>
   redo edgeAnchors
     ((canvasOf [rectShape (QRect_xywh 0 0 80 60)] [] 0)
        \<lparr>m_redoStack := [(HistoryAction_init Move 5)\<lparr>action_moveDelta := (5, 0)\<rparr>]\<rparr>)
     = Inr (canvasOf [rectShape (QRect_xywh 0 0 80 60)] [] 0) \<and>
   uca_pass1 (edgeAnchors (rectShape (QRect_xywh 0 0 80 60))) 0 (5, 7)
     [\<lparr>arrowIndex = 9, shapeIndex = 0, handleIndex = 0, isStartPoint = True\<rparr>]
     [rectShape (QRect_xywh 0 0 80 60), arrowShape (20, 30) (300, 30)]
     = [rectShape (QRect_xywh 0 0 80 60), arrowShape (20, 30) (300, 30)] \<and>
   \<not> inRange 4 (edgeAnchors (rectShape (QRect_xywh 0 0 80 60))) \<and>
   uca_pass1 (edgeAnchors (rectShape (QRect_xywh 0 0 80 60))) 0 (5, 7)
     [\<lparr>arrowIndex = 1, shapeIndex = 0, handleIndex = 4, isStartPoint = True\<rparr>]
     [rectShape (QRect_xywh 0 0 80 60), arrowShape (20, 30) (300, 30)]
     = [rectShape (QRect_xywh 0 0 80 60), arrowShape (25, 37) (300, 30)]"
proof -
  let ?r = "rectShape (QRect_xywh 0 0 80 60)"
  let ?c = "canvasOf [?r] [] 0"
  let ?m = "(HistoryAction_init Move 5)\<lparr>action_moveDelta := (5, 0)\<rparr>"
  let ?cr = "?c\<lparr>m_redoStack := [?m]\<rparr>"
  let ?shs = "[?r, arrowShape (20, 30) (300, 30)]"
  let ?c9 = "\<lparr>arrowIndex = 9, shapeIndex = 0, handleIndex = 0, isStartPoint = True\<rparr>"
  let ?c4 = "\<lparr>arrowIndex = 1, shapeIndex = 0, handleIndex = 4, isStartPoint = True\<rparr>"
  have h1: "\<not> inRange 7 (shapes ?c)"
    by (simp add: canvasOf_def inRange_def)
  from stale_index_operations [where sIdx = 7 and d = ?c and anchorsOf = edgeAnchors
         and delta = "(1, 1)", THEN conjunct1] h1
  have A: "updateConnectedArrows edgeAnchors 7 (1, 1) ?c = Inr ?c"
    by simp
  have h2: "m_undoStack staleIndexCanvas = [addAction 5 ?r]"
    "\<not> inRange 5 (shapes staleIndexCanvas)" "\<not> m_ignoreHistoryActions staleIndexCanvas"
    by (simp_all add: staleIndexCanvas_def canvasOf_def inRange_def)
  from stale_index_operations [where d = staleIndexCanvas and a = "addAction 5 ?r"
         and rest = "[]" and anchorsOf = edgeAnchors, THEN conjunct2, THEN conjunct1] h2
  have B: "undo edgeAnchors staleIndexCanvas = Inr (staleIndexCanvas\<lparr>m_undoStack := []\<rparr>)"
    by (simp add: addAction_sel)
  have h3: "m_redoStack ?cr = [?m]" "action_type ?m = Move" "action_shapeIndex ?m = 5"
    "\<not> inRange 5 (shapes ?cr)" "\<not> m_ignoreHistoryActions ?cr"
    by (simp_all add: canvasOf_def inRange_def HistoryAction_init_def)
  have e3: "?cr\<lparr>m_redoStack := []\<rparr> = ?c"
    by (simp add: canvasOf_def)
  from stale_index_operations [where d = ?cr and a = ?m and rest = "[]"
         and anchorsOf = edgeAnchors, THEN conjunct2, THEN conjunct2, THEN conjunct1] h3
  have C: "redo edgeAnchors ?cr = Inr ?c"
    by (simp add: e3)
  have h4: "\<not> inRange (arrowIndex ?c9) ?shs"
    by (simp add: inRange_def)
  from stale_index_operations [where conn = ?c9 and shs = ?shs and conns = "[]"
         and anchors = "edgeAnchors ?r" and sIdx = 0 and delta = "(5, 7)",
         THEN conjunct2, THEN conjunct2, THEN conjunct2, THEN conjunct1] h4
  have D: "uca_pass1 (edgeAnchors ?r) 0 (5, 7) [?c9] ?shs = ?shs"
    by simp
  have h5: "shapeIndex ?c4 = 0" "inRange (arrowIndex ?c4) ?shs"
    "kind (?shs ! nat (arrowIndex ?c4)) = Arrow" "\<not> inRange (handleIndex ?c4) (edgeAnchors ?r)"
    by (simp_all add: inRange_def arrowShape_def rectShape_def edgeAnchors_def Let_def)
  from stale_index_operations [where conn = ?c4 and shs = ?shs and conns = "[]"
         and anchors = "edgeAnchors ?r" and sIdx = 0 and delta = "(5, 7)",
         THEN conjunct2, THEN conjunct2, THEN conjunct2, THEN conjunct2] h5
  have E: "uca_pass1 (edgeAnchors ?r) 0 (5, 7) [?c4] ?shs
             = [?r, arrowShape (25, 37) (300, 30)]"
    by (simp add: updateConnection_def padd_def arrowShape_def)
  have h5': "\<not> inRange 4 (edgeAnchors ?r)"
    using h5(4) by simp
  from h1 A h2 B C D h5' E show ?thesis by simp
qed

text \<open>
  Claim C2 as stated fails on the code. An undo whose Add action has an index outside the
  shape list does change the canvas: the action is gone from the undo stack. And the second
  pass of updateConnectedArrows reads \<open>anchors[conn.handleIndex]\<close> without the bounds
  check of the first pass: with a connection whose \<open>handleIndex\<close> is outside the anchor
  list the call faults, and so do an undo and a redo of a Move of that shape.
\<close>

theorem stale_index_counterexample:
  "\<not> inRange 5 (shapes staleIndexCanvas) \<and>
   undo edgeAnchors staleIndexCanvas = Inr (staleIndexCanvas\<lparr>m_undoStack := []\<rparr>) \<and>
   staleIndexCanvas\<lparr>m_undoStack := []\<rparr> \<noteq> staleIndexCanvas \<and>
   \<not> inRange 4 (edgeAnchors (shapes staleHandleCanvas ! 0)) \<and>
   updateConnectedArrows edgeAnchors 0 (0, 0) staleHandleCanvas = Inl OutOfBounds \<and>
   undo edgeAnchors
     (staleHandleCanvas
        \<lparr>m_undoStack := [(HistoryAction_init Move 0)\<lparr>action_moveDelta := (5, 0)\<rparr>]\<rparr>)
     = Inl OutOfBounds \<and>
   redo edgeAnchors
     (staleHandleCanvas
        \<lparr>m_redoStack := [(HistoryAction_init Move 0)\<lparr>action_moveDelta := (5, 0)\<rparr>]\<rparr>)
     = Inl OutOfBounds"
proof -
  have 1: "\<not> inRange 5 (shapes staleIndexCanvas)"
    by (simp add: staleIndexCanvas_def canvasOf_def inRange_def)
  have 2: "undo edgeAnchors staleIndexCanvas = Inr (staleIndexCanvas\<lparr>m_undoStack := []\<rparr>)"
    using undo_stale [of staleIndexCanvas "addAction 5 (rectShape (QRect_xywh 0 0 80 60))" "[]"
            edgeAnchors]
    by (simp add: staleIndexCanvas_def canvasOf_def inRange_def addAction_sel)
  have "m_undoStack (staleIndexCanvas\<lparr>m_undoStack := []\<rparr>) \<noteq> m_undoStack staleIndexCanvas"
    by (simp add: staleIndexCanvas_def)
  then have 3: "staleIndexCanvas\<lparr>m_undoStack := []\<rparr> \<noteq> staleIndexCanvas"
    by metis
  have 4: "\<not> inRange 4 (edgeAnchors (shapes staleHandleCanvas ! 0))"
    by (simp add: staleHandleCanvas_def canvasOf_def rectShape_def edgeAnchors_def Let_def
        inRange_def)
  have 5: "updateConnectedArrows edgeAnchors 0 (0, 0) staleHandleCanvas = Inl OutOfBounds"
    by (simp add: staleHandleCanvas_def example_defs uca_defs)
  have 6: "undo edgeAnchors
     (staleHandleCanvas
        \<lparr>m_undoStack := [(HistoryAction_init Move 0)\<lparr>action_moveDelta := (5, 0)\<rparr>]\<rparr>)
     = Inl OutOfBounds"
    by (simp add: staleHandleCanvas_def undo_def undo_action_def
        HistoryAction_init_def moveBy_def translated_def pneg_def example_defs uca_defs)
  have 7: "redo edgeAnchors
     (staleHandleCanvas
        \<lparr>m_redoStack := [(HistoryAction_init Move 0)\<lparr>action_moveDelta := (5, 0)\<rparr>]\<rparr>)
     = Inl OutOfBounds"
    by (simp add: staleHandleCanvas_def redo_def redo_action_def
        HistoryAction_init_def moveBy_def translated_def pneg_def example_defs uca_defs)
  from 1 2 3 4 5 6 7 show ?thesis by simp
qed


end
